theory Spec2Isabelle
  imports Complex_Main "HOL-Library.AList" "HOL-Library.Sublist"
begin

section \<open>The manager's in-process cache (trail-manager.ts)\<close>

text \<open>
  \<^verbatim>\<open>TrailManagerDO.cache\<close> is a JavaScript \<^verbatim>\<open>Map<string, CacheEntry<any>>\<close>. A JavaScript
  Map keeps its keys in insertion order, \<^verbatim>\<open>set\<close> on an existing key keeps the key's
  position, and \<^verbatim>\<open>delete\<close> removes the key: an association list with
  \<^const>\<open>map_of\<close>, \<^const>\<open>AList.update\<close> and \<^const>\<open>AList.delete\<close>. \<^verbatim>\<open>Date.now()\<close>
  is an explicit argument \<open>now\<close>, in milliseconds.
\<close>

record 'v CacheEntry =
  data :: 'v
  expires :: int

type_synonym 'v cache = "(string \<times> 'v CacheEntry) list"

definition DEFAULT_CACHE_TTL_MS :: int where
  "DEFAULT_CACHE_TTL_MS = 60 * 1000"

text \<open>
  \<^verbatim>\<open>getFromCache\<close> returns \<^verbatim>\<open>null\<close> (here \<open>None\<close>) for a missing entry and for an entry
  with \<^verbatim>\<open>Date.now() > entry.expires\<close>, which it also deletes. The result is paired
  with the cache after the call.
\<close>

definition getFromCache :: "int \<Rightarrow> string \<Rightarrow> 'v cache \<Rightarrow> 'v option \<times> 'v cache" where
  "getFromCache now key c =
     (case map_of c key of
        None \<Rightarrow> (None, c)
      | Some entry \<Rightarrow>
          if now > expires entry then (None, AList.delete key c)
          else (Some (data entry), c))"

definition setInCache :: "int \<Rightarrow> string \<Rightarrow> 'v \<Rightarrow> int \<Rightarrow> 'v cache \<Rightarrow> 'v cache" where
  "setInCache now key d ttlMs c =
     AList.update key \<lparr>data = d, expires = now + ttlMs\<rparr> c"

text \<open>
  \<^verbatim>\<open>invalidateCache\<close> walks \<^verbatim>\<open>this.cache.keys()\<close> and deletes each key that starts with
  the prefix. Deleting the key under the iterator does not disturb a JavaScript Map
  iteration, so the loop is a fold over the keys present at the start.
\<close>

definition invalidateCache :: "string \<Rightarrow> 'v cache \<Rightarrow> 'v cache" where
  "invalidateCache keyPrefix c =
     fold (\<lambda>key c'. if prefix keyPrefix key then AList.delete key c' else c')
       (map fst c) c"

text \<open>The cleanup callback of \<^verbatim>\<open>setupCacheCleanup\<close>, run once a minute.\<close>

definition cleanup :: "int \<Rightarrow> 'v cache \<Rightarrow> 'v cache" where
  "cleanup now c =
     fold (\<lambda>(key, entry) c'. if now > expires entry then AList.delete key c' else c') c c"

section \<open>JavaScript values used by the services\<close>

text \<open>
  A JavaScript number is modelled as an integer or \<^verbatim>\<open>NaN\<close> (what \<^verbatim>\<open>parseInt\<close> and the
  arithmetic below produce from integers). Comparisons with \<^verbatim>\<open>NaN\<close> are false and
  arithmetic on \<^verbatim>\<open>NaN\<close> gives \<^verbatim>\<open>NaN\<close>. Infinities and integers beyond the exactly
  representable range are outside the model.
\<close>

datatype jsnum = NaN | Num int

fun js_lt :: "jsnum \<Rightarrow> jsnum \<Rightarrow> bool" where
  "js_lt (Num a) (Num b) = (a < b)"
| "js_lt _ _ = False"

definition js_gt :: "jsnum \<Rightarrow> jsnum \<Rightarrow> bool" where
  "js_gt a b = js_lt b a"

fun js_add :: "jsnum \<Rightarrow> jsnum \<Rightarrow> jsnum" where
  "js_add (Num a) (Num b) = Num (a + b)"
| "js_add _ _ = NaN"

fun js_sub :: "jsnum \<Rightarrow> jsnum \<Rightarrow> jsnum" where
  "js_sub (Num a) (Num b) = Num (a - b)"
| "js_sub _ _ = NaN"

fun js_mul :: "jsnum \<Rightarrow> jsnum \<Rightarrow> jsnum" where
  "js_mul (Num a) (Num b) = Num (a * b)"
| "js_mul _ _ = NaN"

text \<open>
  \<^verbatim>\<open>Math.ceil(a / b)\<close>. For \<open>b = 0\<close> JavaScript gives an infinity or \<^verbatim>\<open>NaN\<close>; the model
  gives \<^verbatim>\<open>NaN\<close> there (the divisor below is a validated limit, never 0).
\<close>

fun js_ceil_div :: "jsnum \<Rightarrow> jsnum \<Rightarrow> jsnum" where
  "js_ceil_div (Num a) (Num b) = (if b = 0 then NaN else Num (- ((- a) div b)))"
| "js_ceil_div _ _ = NaN"

fun js_min :: "jsnum \<Rightarrow> jsnum \<Rightarrow> jsnum" where
  "js_min (Num a) (Num b) = Num (min a b)"
| "js_min _ _ = NaN"

text \<open>
  \<^verbatim>\<open>Array.prototype.slice(start, end)\<close>: each bound goes through ToIntegerOrInfinity
  (\<^verbatim>\<open>NaN\<close> becomes 0), a negative bound counts from the end, and both are clipped to the
  array.
\<close>

definition toInteger :: "jsnum \<Rightarrow> int" where
  "toInteger x = (case x of NaN \<Rightarrow> 0 | Num i \<Rightarrow> i)"

definition relativeIndex :: "nat \<Rightarrow> int \<Rightarrow> nat" where
  "relativeIndex len i = (if i < 0 then nat (max (int len + i) 0) else nat (min i (int len)))"

definition js_slice :: "'a list \<Rightarrow> jsnum \<Rightarrow> jsnum \<Rightarrow> 'a list" where
  "js_slice xs start end =
     (let k = relativeIndex (length xs) (toInteger start);
          final = relativeIndex (length xs) (toInteger end)
      in take (final - k) (drop k xs))"

text \<open>Decimal rendering of a number inside a template literal.\<close>

definition digit :: "nat \<Rightarrow> char" where
  "digit d = char_of (of_char CHR ''0'' + d)"

fun show_nat :: "nat \<Rightarrow> string" where
  "show_nat n = (if n < 10 then [digit n] else show_nat (n div 10) @ [digit (n mod 10)])"

declare show_nat.simps [simp del]

definition show_int :: "int \<Rightarrow> string" where
  "show_int i = (if i < 0 then CHR ''-'' # show_nat (nat (- i)) else show_nat (nat i))"

definition js_show :: "jsnum \<Rightarrow> string" where
  "js_show x = (case x of NaN \<Rightarrow> ''NaN'' | Num i \<Rightarrow> show_int i)"

text \<open>\<^verbatim>\<open>s.padStart(2, '0')\<close>.\<close>

definition padStart2 :: "string \<Rightarrow> string" where
  "padStart2 s = replicate (2 - length s) CHR ''0'' @ s"

text \<open>
  String comparison. The operators \<^verbatim>\<open><\<close> and \<^verbatim>\<open>>\<close> on strings compare code units
  lexicographically.
\<close>

fun compareCodeUnits :: "string \<Rightarrow> string \<Rightarrow> int" where
  "compareCodeUnits [] [] = 0"
| "compareCodeUnits [] (y # ys) = - 1"
| "compareCodeUnits (x # xs) [] = 1"
| "compareCodeUnits (x # xs) (y # ys) =
     (if (of_char x :: nat) < of_char y then - 1
      else if (of_char y :: nat) < of_char x then 1
      else compareCodeUnits xs ys)"

definition str_lt :: "string \<Rightarrow> string \<Rightarrow> bool" where
  "str_lt a b = (compareCodeUnits a b < 0)"

definition str_gt :: "string \<Rightarrow> string \<Rightarrow> bool" where
  "str_gt a b = (compareCodeUnits a b > 0)"

text \<open>
  \<^verbatim>\<open>Array.prototype.sort(cmp)\<close> is a stable sort. For a comparator that is a total
  preorder every stable sort gives the same array; the model is the stable insertion
  sort.
\<close>

fun insertBy :: "('a \<Rightarrow> 'a \<Rightarrow> int) \<Rightarrow> 'a \<Rightarrow> 'a list \<Rightarrow> 'a list" where
  "insertBy cmp x [] = [x]"
| "insertBy cmp x (y # ys) = (if cmp x y \<le> 0 then x # y # ys else y # insertBy cmp x ys)"

definition js_sort :: "('a \<Rightarrow> 'a \<Rightarrow> int) \<Rightarrow> 'a list \<Rightarrow> 'a list" where
  "js_sort cmp xs = foldr (insertBy cmp) xs []"

text \<open>\<^verbatim>\<open>a || b\<close> on an optional string and on an optional number; truthiness of a string.\<close>

definition orElse :: "string option \<Rightarrow> string \<Rightarrow> string" where
  "orElse s d = (case s of None \<Rightarrow> d | Some x \<Rightarrow> if x = [] then d else x)"

definition numOrElse :: "int option \<Rightarrow> int \<Rightarrow> int" where
  "numOrElse n d = (case n of None \<Rightarrow> d | Some x \<Rightarrow> if x = 0 then d else x)"

definition truthy :: "string option \<Rightarrow> bool" where
  "truthy s = (case s of None \<Rightarrow> False | Some x \<Rightarrow> x \<noteq> [])"

text \<open>
  The batching loop that every fan-out repeats: push each entry on the current batch, and
  when the batch has reached the batch size push a copy of it on the list of batches and
  start a new one; a non-empty last batch is pushed after the loop.
\<close>

fun batchLoop :: "nat \<Rightarrow> 'a list \<Rightarrow> 'a list \<Rightarrow> 'a list list \<Rightarrow> 'a list list \<times> 'a list" where
  "batchLoop batchSize [] currentBatch batches = (batches, currentBatch)"
| "batchLoop batchSize (e # es) currentBatch batches =
     (let pushed = currentBatch @ [e]
      in if length pushed \<ge> batchSize then batchLoop batchSize es [] (batches @ [pushed])
         else batchLoop batchSize es pushed batches)"

definition makeBatches :: "nat \<Rightarrow> 'a list \<Rightarrow> 'a list list" where
  "makeBatches batchSize es =
     (case batchLoop batchSize es [] [] of
        (batches, currentBatch) \<Rightarrow>
          if length currentBatch > 0 then batches @ [currentBatch] else batches)"

section \<open>Documents, stored values and the manager's world\<close>

text \<open>
  Field names carry a prefix for their record (\<open>rd_\<close> for \<^verbatim>\<open>RegistrationData\<close>, \<open>td_\<close>
  for \<^verbatim>\<open>TrailData\<close>, and so on), since the interfaces share field names. Documents
  arrive as parsed JSON merged from partial updates, so every field the code tests for
  presence is optional. The trail fields that no modelled function reads (length,
  difficulty, timestamps, QR code, coordinates, features, notes) are left out.
\<close>

record RegistrationData =
  rd_id :: "string option"
  rd_trailId :: "string option"
  rd_trailName :: "string option"
  rd_riderName :: "string option"
  rd_email :: "string option"
  rd_timestamp :: "string option"
  rd_horseCount :: "int option"
  rd_comments :: "string option"

record TrailData =
  td_id :: "string option"
  td_name :: "string option"
  td_description :: "string option"
  td_location :: "string option"
  td_active :: "bool option"
  td_registrationCount :: "int option"
  td_horseCount :: "int option"

text \<open>
  The \<^verbatim>\<open>trail\<close> of a table item is the looked-up trail name; it is \<open>None\<close> when the lookup
  gave a value that is not a string (an inherited property of the name object), which
  \<^verbatim>\<open>JSON.stringify\<close> leaves out of the item.
\<close>

record RegistrationTableItem =
  ti_id :: string
  ti_date :: string
  ti_trail :: "string option"
  ti_trailId :: string
  ti_riderName :: string
  ti_horseCount :: int
  ti_timestamp :: string

text \<open>
  The response object is built with JavaScript numbers; what the caller receives and
  what is cached went through \<^verbatim>\<open>JSON.stringify\<close>, which writes \<^verbatim>\<open>NaN\<close> as \<^verbatim>\<open>null\<close>. The
  records are parametrised by the type of their numbers: \<open>jsnum\<close> in memory,
  \<open>json_number\<close> in the JSON body.
\<close>

datatype json_number = JNull | JNum int

definition toJSON :: "jsnum \<Rightarrow> json_number" where
  "toJSON x = (case x of NaN \<Rightarrow> JNull | Num i \<Rightarrow> JNum i)"

record 'n Pagination =
  pg_page :: 'n
  pg_limit :: 'n
  pg_totalItems :: nat
  pg_totalPages :: 'n
  pg_hasNextPage :: bool
  pg_hasPrevPage :: bool

record Filters =
  f_trail :: "string option"
  f_startDate :: "string option"
  f_endDate :: "string option"
  f_timezone :: "string option"

record 'n PaginatedResponse =
  resp_data :: "RegistrationTableItem list"
  resp_pagination :: "'n Pagination"
  resp_filters :: Filters

definition stringify :: "jsnum PaginatedResponse \<Rightarrow> json_number PaginatedResponse" where
  "stringify r =
     \<lparr>resp_data = resp_data r,
      resp_pagination =
        \<lparr>pg_page = toJSON (pg_page (resp_pagination r)),
         pg_limit = toJSON (pg_limit (resp_pagination r)),
         pg_totalItems = pg_totalItems (resp_pagination r),
         pg_totalPages = toJSON (pg_totalPages (resp_pagination r)),
         pg_hasNextPage = pg_hasNextPage (resp_pagination r),
         pg_hasPrevPage = pg_hasPrevPage (resp_pagination r)\<rparr>,
      resp_filters = resp_filters r\<rparr>"

record ProcessedRegistration =
  pr_id :: string
  pr_trailId :: string
  pr_trailName :: string
  pr_horseCount :: int
  pr_timestamp :: string
  pr_date :: string
  pr_weekKey :: string
  pr_weekLabel :: string
  pr_monthKey :: string
  pr_monthLabel :: string

record TrailBucket =
  tb_horseCount :: int
  tb_registrationCount :: nat

record AnalyticsTimeEntry =
  ate_timeKey :: string
  ate_label :: string
  ate_totalHorses :: int
  ate_totalRegistrations :: nat
  ate_byTrail :: "(string \<times> TrailBucket) list"

record TrailSummary =
  ts_totalHorses :: int
  ts_totalRegistrations :: nat
  ts_averageHorsesPerRegistration :: rat

record AnalyticsData =
  ad_daily :: "AnalyticsTimeEntry list"
  ad_weekly :: "AnalyticsTimeEntry list"
  ad_monthly :: "AnalyticsTimeEntry list"
  ad_byTrail :: "(string \<times> TrailSummary) list"
  ad_lastUpdated :: string

text \<open>
  The manager's durable storage holds, under string keys, actor handles
  (\<^verbatim>\<open>trail:<id>\<close>, \<^verbatim>\<open>registration:<id>\<close>), the registration ids of a trail
  (\<^verbatim>\<open>trail_registrations:<id>\<close>) and the analytics snapshot (\<^verbatim>\<open>analytics:data\<close>).
  \<^verbatim>\<open>storage.list({prefix})\<close> returns the entries whose key starts with the prefix, in the
  storage's own order.
\<close>

datatype stored = Handle string | RegistrationIds "string list" | Snapshot AnalyticsData

type_synonym storage = "(string \<times> stored) list"

definition storage_get :: "storage \<Rightarrow> string \<Rightarrow> stored option" where
  "storage_get s key = map_of s key"

definition storage_put :: "string \<Rightarrow> stored \<Rightarrow> storage \<Rightarrow> storage" where
  "storage_put key v s = AList.update key v s"

definition storage_delete :: "string \<Rightarrow> storage \<Rightarrow> storage" where
  "storage_delete key s = AList.delete key s"

definition storage_list :: "string \<Rightarrow> storage \<Rightarrow> (string \<times> stored) list" where
  "storage_list keyPrefix s = filter (\<lambda>(key, v). prefix keyPrefix key) s"

text \<open>The values the services put in the cache (\<^verbatim>\<open>CacheEntry<any>\<close>).\<close>

datatype cached =
    CNumber int
  | CNameMap "(string \<times> string) list"
  | CPage "json_number PaginatedResponse"
  | CAnalytics AnalyticsData
  | CTrails "TrailData list"

text \<open>
  An entity actor is reached through its handle. \<open>Live d\<close> is an actor that answers,
  holding the document \<open>d\<close> under its \<^verbatim>\<open>data\<close> key or nothing; \<open>Unreachable\<close> is a
  handle for which \<^verbatim>\<open>idFromString\<close> or \<^verbatim>\<open>fetch\<close> throws.
\<close>

datatype 'd actor = Unreachable | Live "'d option"

datatype exn = ActorError | TypeError | RangeError

text \<open>
  Pending \<^verbatim>\<open>setTimeout\<close> callbacks. The two callbacks of the registration service are
  the debounced invalidation of \<^verbatim>\<open>debounceInvalidateCache\<close> and the deferred
  aggregation of \<^verbatim>\<open>triggerAnalyticsAggregation\<close>.
\<close>

datatype callback = DebouncedInvalidate "string option" | DeferredAggregation

record timer =
  timer_id :: nat
  timer_due :: int
  timer_callback :: callback

text \<open>
  The state of one manager instance: its storage, the actors it can reach, its cache,
  the clock (\<^verbatim>\<open>Date.now()\<close>), the pending timers with the number of timers the
  runtime has set so far, the registration service's \<^verbatim>\<open>cacheInvalidationTimers\<close>, and the times at
  which \<^verbatim>\<open>aggregateAnalytics\<close> has logged its start on the console.
\<close>

record world =
  storage :: storage
  trailActors :: "string \<Rightarrow> TrailData actor"
  regActors :: "string \<Rightarrow> RegistrationData actor"
  cache :: "cached cache"
  clock :: int
  timers :: "timer list"
  timersSet :: nat
  cacheInvalidationTimers :: "(string \<times> nat) list"
  aggregationLog :: "int list"

text \<open>
  What the runtime's \<^verbatim>\<open>Date\<close> and \<^verbatim>\<open>Intl.DateTimeFormat\<close> give for a timestamp string.
  \<open>parseDate\<close> is \<open>None\<close> for an invalid date (on which \<^verbatim>\<open>toISOString\<close> throws a
  RangeError), and otherwise the observations the code makes of the date: the date part
  of \<^verbatim>\<open>toISOString()\<close>, \<^verbatim>\<open>getFullYear()\<close>, \<^verbatim>\<open>getMonth()\<close>, \<^verbatim>\<open>getTime()\<close>, and the time
  and week day of January 1st of that year. \<open>formatInZone tz ts\<close> is the year, month and
  day parts of the timestamp in the time zone, or \<open>None\<close> when the formatter throws.
  \<open>toISOString t\<close> is \<^verbatim>\<open>new Date().toISOString()\<close> at clock time \<open>t\<close>. \<open>collation\<close> is
  the runtime's locale-sensitive string comparison behind \<^verbatim>\<open>String.prototype.localeCompare\<close>:
  negative, zero or positive. It is not the code-unit order (it orders \<^verbatim>\<open>:\<close> before \<^verbatim>\<open>.\<close>,
  for one), so it stays a parameter.
\<close>

record JSDate =
  d_isoDate :: string
  d_fullYear :: int
  d_month :: nat
  d_time :: int
  d_jan1Time :: int
  d_jan1Day :: nat

record runtime =
  parseDate :: "string \<Rightarrow> JSDate option"
  formatInZone :: "string \<Rightarrow> string \<Rightarrow> (string \<times> string \<times> string) option"
  toISOString :: "int \<Rightarrow> string"
  collation :: "string \<Rightarrow> string \<Rightarrow> int"

definition localeCompare :: "runtime \<Rightarrow> string \<Rightarrow> string \<Rightarrow> int" where
  "localeCompare rt a b = collation rt a b"

text \<open>
  Reading and writing a property of a plain object (\<^verbatim>\<open>{}\<close>) used as a dictionary. A key
  that is not an own property but names a property of \<^verbatim>\<open>Object.prototype\<close> reads as that
  inherited value, which is not a string. Assigning a string or a plain record to
  \<^verbatim>\<open>__proto__\<close> creates no own property. Own properties are kept in insertion order;
  that \<^verbatim>\<open>JSON.stringify\<close> writes integer-like keys first is not modelled.
\<close>

definition objectPrototypeKeys :: "string list" where
  "objectPrototypeKeys =
     [''constructor'', ''__proto__'', ''hasOwnProperty'', ''isPrototypeOf'',
      ''propertyIsEnumerable'', ''toLocaleString'', ''toString'', ''valueOf'',
      ''__defineGetter__'', ''__defineSetter__'', ''__lookupGetter__'', ''__lookupSetter__'']"

datatype 'a property = Undefined | Own 'a | Inherited

definition js_property :: "(string \<times> 'a) list \<Rightarrow> string \<Rightarrow> 'a property" where
  "js_property obj key =
     (case map_of obj key of
        Some v \<Rightarrow> Own v
      | None \<Rightarrow> if key \<in> set objectPrototypeKeys then Inherited else Undefined)"

definition js_assign :: "string \<Rightarrow> 'a \<Rightarrow> (string \<times> 'a) list \<Rightarrow> (string \<times> 'a) list" where
  "js_assign key v obj = (if key = ''__proto__'' then obj else AList.update key v obj)"

text \<open>
  \<^verbatim>\<open>TrailDO.getTrail\<close> and \<^verbatim>\<open>RegistrationDO.getRegistration\<close>: status 404 without a
  document, status 200 with the document as body. A call to an unreachable actor throws.
\<close>

definition actorGet :: "'d actor \<Rightarrow> exn + nat \<times> 'd option" where
  "actorGet a =
     (case a of
        Unreachable \<Rightarrow> Inl ActorError
      | Live None \<Rightarrow> Inr (404, None)
      | Live (Some d) \<Rightarrow> Inr (200, Some d))"

text \<open>
  A listed storage value is used as the actor's id string; \<^verbatim>\<open>idFromString\<close> throws a
  TypeError on a value that is not a string.
\<close>

definition fetchTrail :: "world \<Rightarrow> stored \<Rightarrow> exn + nat \<times> TrailData option" where
  "fetchTrail w v =
     (case v of Handle h \<Rightarrow> actorGet (trailActors w h) | _ \<Rightarrow> Inl TypeError)"

definition fetchRegistration :: "world \<Rightarrow> stored \<Rightarrow> exn + nat \<times> RegistrationData option" where
  "fetchRegistration w v =
     (case v of Handle h \<Rightarrow> actorGet (regActors w h) | _ \<Rightarrow> Inl TypeError)"

text \<open>\<^verbatim>\<open>!registrationObjectId\<close>: only the empty string is falsy among the stored values.\<close>

definition falsyStored :: "stored \<Rightarrow> bool" where
  "falsyStored v = (case v of Handle h \<Rightarrow> h = [] | _ \<Rightarrow> False)"

section \<open>The paginated registration view (statistics-service.ts)\<close>

definition truthyStr :: "string option \<Rightarrow> string option" where
  "truthyStr s = (case s of None \<Rightarrow> None | Some x \<Rightarrow> if x = [] then None else Some x)"

fun nonNull :: "'a option list \<Rightarrow> 'a list" where
  "nonNull [] = []"
| "nonNull (None # xs) = nonNull xs"
| "nonNull (Some x # xs) = x # nonNull xs"

text \<open>The \<^verbatim>\<open>catch\<close> of a per-item \<^verbatim>\<open>try\<close>: the error is logged and the item is \<^verbatim>\<open>null\<close>.\<close>

definition catchNull :: "exn + 'a option \<Rightarrow> 'a option" where
  "catchNull r = (case r of Inl e \<Rightarrow> None | Inr x \<Rightarrow> x)"

text \<open>Validation of the pagination parameters, lines 84 to 86.\<close>

definition validatePage :: "jsnum \<Rightarrow> jsnum" where
  "validatePage page = (if js_lt page (Num 1) then Num 1 else page)"

definition validateLimit :: "jsnum \<Rightarrow> jsnum" where
  "validateLimit limit =
     (let limit1 = (if js_lt limit (Num 1) then Num 10 else limit)
      in if js_gt limit1 (Num 100) then Num 100 else limit1)"

definition registrationsCacheKey ::
  "jsnum \<Rightarrow> jsnum \<Rightarrow> string option \<Rightarrow> string option \<Rightarrow> string option \<Rightarrow> string option \<Rightarrow> string"
where
  "registrationsCacheKey page limit trailFilter startDate endDate timezone =
     ''registrations:'' @ js_show page @ '':'' @ js_show limit @ '':'' @
     orElse trailFilter ''all'' @ '':'' @ orElse startDate ''none'' @ '':'' @
     orElse endDate ''none'' @ '':'' @ orElse timezone ''UTC''"

text \<open>
  The map of trail ids to names: each listed trail is fetched; a 200 response stores the
  trail's name (or \<^verbatim>\<open>'Unknown'\<close>), an exception stores \<^verbatim>\<open>'Unknown'\<close>, any other status
  stores nothing. The callbacks of a batch are run in the order of the batch.
\<close>

definition trailNameEntry ::
  "world \<Rightarrow> string \<times> stored \<Rightarrow> (string \<times> string) list \<Rightarrow> (string \<times> string) list"
where
  "trailNameEntry w entry trailsMap =
     (case entry of (key, v) \<Rightarrow>
        let trailId = drop 6 key
        in (case fetchTrail w v of
              Inl e \<Rightarrow> js_assign trailId ''Unknown'' trailsMap
            | Inr (status, body) \<Rightarrow>
                if status = 200 then
                  (case body of
                     None \<Rightarrow> js_assign trailId ''Unknown'' trailsMap
                   | Some d \<Rightarrow> js_assign trailId (orElse (td_name d) ''Unknown'') trailsMap)
                else trailsMap))"

definition buildTrailsMap :: "world \<Rightarrow> (string \<times> string) list" where
  "buildTrailsMap w =
     fold (\<lambda>batch trailsMap. fold (trailNameEntry w) batch trailsMap)
       (makeBatches 10 (storage_list ''trail:'' (storage w))) []"

text \<open>
  A cached value of another shape than the one the key family holds is treated as a
  miss; no call site stores one.
\<close>

definition trailsNameMap :: "world \<Rightarrow> (string \<times> string) list \<times> world" where
  "trailsNameMap w =
     (case getFromCache (clock w) ''trails-name-map'' (cache w) of
        (Some (CNameMap trailsMap), c) \<Rightarrow> (trailsMap, w\<lparr>cache := c\<rparr>)
      | (_, c) \<Rightarrow>
          let trailsMap = buildTrailsMap w
          in (trailsMap,
              w\<lparr>cache := setInCache (clock w) ''trails-name-map'' (CNameMap trailsMap)
                   (5 * 60 * 1000) c\<rparr>))"

text \<open>
  The date of a registration: the date part of the ISO timestamp, replaced by the date
  in the requested time zone when the formatter does not throw, and \<^verbatim>\<open>'Unknown'\<close>
  without a timestamp.
\<close>

definition registrationDate :: "runtime \<Rightarrow> string option \<Rightarrow> RegistrationData \<Rightarrow> exn + string" where
  "registrationDate rt timezone regData =
     (case truthyStr (rd_timestamp regData) of
        None \<Rightarrow> Inr ''Unknown''
      | Some ts \<Rightarrow>
          (case parseDate rt ts of
             None \<Rightarrow> Inl RangeError
           | Some d \<Rightarrow>
               Inr (case truthyStr timezone of
                      None \<Rightarrow> d_isoDate d
                    | Some tz \<Rightarrow>
                        (case formatInZone rt tz ts of
                           None \<Rightarrow> d_isoDate d
                         | Some (year, month, day) \<Rightarrow>
                             (if year = [] then ''2023'' else year) @ ''-'' @
                             (if month = [] then ''01'' else month) @ ''-'' @
                             (if day = [] then ''01'' else day)))))"

text \<open>
  \<^verbatim>\<open>regData.trailId ? (trailsMap[regData.trailId] || 'Unknown') : 'Unknown'\<close>. An inherited
  property is truthy and not a string: \<open>None\<close>.
\<close>

definition trailNameOf :: "(string \<times> string) list \<Rightarrow> RegistrationData \<Rightarrow> string option" where
  "trailNameOf trailsMap regData =
     (case truthyStr (rd_trailId regData) of
        Some t \<Rightarrow>
          (case js_property trailsMap t of
             Own n \<Rightarrow> Some (if n = [] then ''Unknown'' else n)
           | Inherited \<Rightarrow> None
           | Undefined \<Rightarrow> Some ''Unknown'')
      | None \<Rightarrow> Some ''Unknown'')"

text \<open>The body of the \<^verbatim>\<open>try\<close> for one registration entry, lines 173 to 232.\<close>

definition tableItem ::
  "runtime \<Rightarrow> world \<Rightarrow> (string \<times> string) list \<Rightarrow> string option \<Rightarrow> string option \<Rightarrow>
   string option \<Rightarrow> string option \<Rightarrow> string \<times> stored \<Rightarrow> exn + RegistrationTableItem option"
where
  "tableItem rt w trailsMap trailFilter startDate endDate timezone entry =
     (case entry of (key, registrationObjectId) \<Rightarrow>
        if falsyStored registrationObjectId then Inr None
        else
          (case fetchRegistration w registrationObjectId of
             Inl e \<Rightarrow> Inl e
           | Inr (status, body) \<Rightarrow>
               if status = 200 then
                 (case body of
                    None \<Rightarrow> Inl TypeError
                  | Some regData \<Rightarrow>
                      (case registrationDate rt timezone regData of
                         Inl e \<Rightarrow> Inl e
                       | Inr regDate \<Rightarrow>
                           if (case truthyStr startDate of
                                 Some s \<Rightarrow> str_lt regDate s | None \<Rightarrow> False)
                           then Inr None
                           else if (case truthyStr endDate of
                                      Some s \<Rightarrow> str_gt regDate s | None \<Rightarrow> False)
                           then Inr None
                           else
                             let trailName = trailNameOf trailsMap regData
                             in if (case truthyStr trailFilter of
                                      Some f \<Rightarrow> trailName \<noteq> Some f | None \<Rightarrow> False)
                                then Inr None
                                else Inr (Some
                                   \<lparr>ti_id = drop 13 key,
                                    ti_date = regDate,
                                    ti_trail = trailName,
                                    ti_trailId = orElse (rd_trailId regData) ''unknown'',
                                    ti_riderName = orElse (rd_riderName regData) ''Unknown'',
                                    ti_horseCount = numOrElse (rd_horseCount regData) 1,
                                    ti_timestamp = orElse (rd_timestamp regData) []\<rparr>)))
               else Inr None))"

definition registrationTable ::
  "runtime \<Rightarrow> world \<Rightarrow> (string \<times> string) list \<Rightarrow> string option \<Rightarrow> string option \<Rightarrow>
   string option \<Rightarrow> string option \<Rightarrow> RegistrationTableItem list"
where
  "registrationTable rt w trailsMap trailFilter startDate endDate timezone =
     fold (\<lambda>batch registrationList.
             registrationList @
             nonNull (map (\<lambda>entry. catchNull
                (tableItem rt w trailsMap trailFilter startDate endDate timezone entry)) batch))
       (makeBatches 50 (storage_list ''registration:'' (storage w))) []"

text \<open>Sorting newest first and cutting out the page, lines 244 to 273.\<close>

definition paginate ::
  "jsnum \<Rightarrow> jsnum \<Rightarrow> string option \<Rightarrow> string option \<Rightarrow> string option \<Rightarrow> string option \<Rightarrow>
   RegistrationTableItem list \<Rightarrow> jsnum PaginatedResponse"
where
  "paginate page limit trailFilter startDate endDate timezone registrationList =
     (let totalItems = length registrationList;
          totalPages = js_ceil_div (Num (int totalItems)) limit;
          startIndex = js_mul (js_sub page (Num 1)) limit;
          endIndex = js_min (js_add startIndex limit) (Num (int totalItems));
          paginatedItems = js_slice registrationList startIndex endIndex
      in \<lparr>resp_data = paginatedItems,
          resp_pagination =
            \<lparr>pg_page = page, pg_limit = limit, pg_totalItems = totalItems,
             pg_totalPages = totalPages,
             pg_hasNextPage = js_lt page totalPages,
             pg_hasPrevPage = js_gt page (Num 1)\<rparr>,
          resp_filters =
            \<lparr>f_trail = trailFilter, f_startDate = startDate, f_endDate = endDate,
             f_timezone = timezone\<rparr>\<rparr>)"

text \<open>
  \<^verbatim>\<open>getRegistrationData\<close>. A cached page is returned as a fresh copy of itself. Otherwise
  the page is computed and sorted newest first; the caller gets its JSON body and the
  cache gets a copy parsed back from that JSON, for 30 seconds.
\<close>

definition getRegistrationData ::
  "runtime \<Rightarrow> jsnum \<Rightarrow> jsnum \<Rightarrow> string option \<Rightarrow> string option \<Rightarrow> string option \<Rightarrow>
   string option \<Rightarrow> world \<Rightarrow> json_number PaginatedResponse \<times> world"
where
  "getRegistrationData rt page0 limit0 trailFilter startDate endDate timezone w =
     (let page = validatePage page0;
          limit = validateLimit limit0;
          cacheKey = registrationsCacheKey page limit trailFilter startDate endDate timezone
      in case getFromCache (clock w) cacheKey (cache w) of
           (Some (CPage cachedData), c) \<Rightarrow> (cachedData, w\<lparr>cache := c\<rparr>)
         | (_, c) \<Rightarrow>
             (case trailsNameMap (w\<lparr>cache := c\<rparr>) of
                (trailsMap, w1) \<Rightarrow>
                  let registrationList =
                        js_sort (\<lambda>a b. localeCompare rt (ti_timestamp b) (ti_timestamp a))
                          (registrationTable rt w1 trailsMap trailFilter startDate endDate
                             timezone);
                      response = paginate page limit trailFilter startDate endDate timezone
                                   registrationList
                  in (stringify response,
                      w1\<lparr>cache := setInCache (clock w1) cacheKey (CPage (stringify response))
                            (30 * 1000) (cache w1)\<rparr>)))"

section \<open>The aggregator (statistics-service.ts)\<close>

record TrailInfo =
  tinfo_id :: string
  tinfo_name :: string
  tinfo_active :: bool

text \<open>
  \<^verbatim>\<open>StatisticsService.getAllTrails\<close>: the map from trail id to its name and active
  flag. A trail whose fetch throws or does not answer 200 is left out.
\<close>

definition trailInfoEntry ::
  "world \<Rightarrow> string \<times> stored \<Rightarrow> (string \<times> TrailInfo) list \<Rightarrow> (string \<times> TrailInfo) list"
where
  "trailInfoEntry w entry trailMap =
     (case entry of (key, v) \<Rightarrow>
        let trailId = drop 6 key
        in (case fetchTrail w v of
              Inl e \<Rightarrow> trailMap
            | Inr (status, body) \<Rightarrow>
                if status = 200 then
                  (case body of
                     None \<Rightarrow> trailMap
                   | Some d \<Rightarrow>
                       AList.update trailId
                         \<lparr>tinfo_id = trailId,
                          tinfo_name = orElse (td_name d) ''Unknown'',
                          tinfo_active = (case td_active d of Some b \<Rightarrow> b | None \<Rightarrow> False)\<rparr>
                         trailMap)
                else trailMap))"

definition StatisticsService_getAllTrails :: "world \<Rightarrow> (string \<times> TrailInfo) list" where
  "StatisticsService_getAllTrails w =
     fold (\<lambda>batch trailMap. fold (trailInfoEntry w) batch trailMap)
       (makeBatches 10 (storage_list ''trail:'' (storage w))) []"

text \<open>
  \<^verbatim>\<open>getWeekNumber\<close> is \<^verbatim>\<open>Math.ceil((pastDaysOfYear + firstDayOfYear.getDay() + 1) / 7)\<close>
  with \<^verbatim>\<open>pastDaysOfYear\<close> the milliseconds since January 1st divided by 86400000. The
  quotient is written over the common denominator, so that the ceiling is an integer
  division: \<open>\<lceil>a / b\<rceil> = - ((- a) div b)\<close>.
\<close>

definition getWeekNumber :: "JSDate \<Rightarrow> int" where
  "getWeekNumber d =
     (let pastMs = d_time d - d_jan1Time d
      in - ((- (pastMs + (int (d_jan1Day d) + 1) * 86400000)) div (7 * 86400000)))"

definition months :: "string list" where
  "months = [''January'', ''February'', ''March'', ''April'', ''May'', ''June'',
             ''July'', ''August'', ''September'', ''October'', ''November'', ''December'']"

definition getMonthName :: "JSDate \<Rightarrow> string" where
  "getMonthName d = (if d_month d < length months then months ! d_month d else ''undefined'')"

text \<open>The body of the \<^verbatim>\<open>try\<close> for one registration entry, lines 572 to 614.\<close>

definition processedRegistration ::
  "runtime \<Rightarrow> world \<Rightarrow> (string \<times> TrailInfo) list \<Rightarrow> string \<times> stored \<Rightarrow>
   exn + ProcessedRegistration option"
where
  "processedRegistration rt w trailMap entry =
     (case entry of (key, registrationObjectId) \<Rightarrow>
        if falsyStored registrationObjectId then Inr None
        else
          (case fetchRegistration w registrationObjectId of
             Inl e \<Rightarrow> Inl e
           | Inr (status, body) \<Rightarrow>
               if status = 200 then
                 (case body of
                    None \<Rightarrow> Inl TypeError
                  | Some regData \<Rightarrow>
                      (case truthyStr (rd_timestamp regData) of
                         None \<Rightarrow> Inr None
                       | Some ts \<Rightarrow>
                           (case parseDate rt ts of
                              None \<Rightarrow> Inl RangeError
                            | Some date \<Rightarrow>
                                let trailId = orElse (rd_trailId regData) ''unknown'';
                                    trailInfo = map_of trailMap trailId;
                                    dateStr = d_isoDate date;
                                    year = d_fullYear date;
                                    weekNum = getWeekNumber date;
                                    weekKey = show_int year @ ''-W'' @ show_int weekNum;
                                    weekLabel = show_int year @ '' Week '' @ show_int weekNum;
                                    month = int (d_month date) + 1;
                                    monthKey = show_int year @ ''-'' @ padStart2 (show_int month);
                                    monthLabel = getMonthName date @ '' '' @ show_int year
                                in Inr (Some
                                     \<lparr>pr_id = drop 13 key,
                                      pr_trailId = trailId,
                                      pr_trailName =
                                        (case trailInfo of
                                           Some info \<Rightarrow> tinfo_name info
                                         | None \<Rightarrow> ''Unknown''),
                                      pr_horseCount = numOrElse (rd_horseCount regData) 1,
                                      pr_timestamp = ts,
                                      pr_date = dateStr,
                                      pr_weekKey = weekKey,
                                      pr_weekLabel = weekLabel,
                                      pr_monthKey = monthKey,
                                      pr_monthLabel = monthLabel\<rparr>))))
               else Inr None))"

text \<open>
  \<^verbatim>\<open>StatisticsService.getAllRegistrations\<close>: batches of 50; within a batch every entry
  is processed under its own \<^verbatim>\<open>try\<close>, and the non-null results of the batch are pushed
  on the result.
\<close>

definition StatisticsService_getAllRegistrations ::
  "runtime \<Rightarrow> (string \<times> TrailInfo) list \<Rightarrow> world \<Rightarrow> ProcessedRegistration list"
where
  "StatisticsService_getAllRegistrations rt trailMap w =
     fold (\<lambda>batch processedRegistrations.
             processedRegistrations @
             nonNull (map (\<lambda>entry. catchNull (processedRegistration rt w trailMap entry)) batch))
       (makeBatches 50 (storage_list ''registration:'' (storage w))) []"

text \<open>
  \<^verbatim>\<open>processRegistrations\<close>. The four groupings are JavaScript Maps, association lists in
  insertion order. A time group holds its entries, its label (the daily groups have
  none) and its entries by trail name; \<^verbatim>\<open>groups.get(key)!.entries.push(reg)\<close> changes the
  group in place, which is \<^const>\<open>AList.map_entry\<close>.
\<close>

record 'l TimeGroup =
  tg_entries :: "ProcessedRegistration list"
  tg_label :: 'l
  tg_byTrail :: "(string \<times> ProcessedRegistration list) list"

record TrailGroup =
  trg_entries :: "ProcessedRegistration list"
  trg_trailName :: string

definition addToTimeGroup ::
  "string \<Rightarrow> 'l \<Rightarrow> ProcessedRegistration \<Rightarrow> (string \<times> 'l TimeGroup) list \<Rightarrow>
   (string \<times> 'l TimeGroup) list"
where
  "addToTimeGroup key label reg groups =
     (let groups1 =
            (if map_of groups key = None
             then AList.update key \<lparr>tg_entries = [], tg_label = label, tg_byTrail = []\<rparr> groups
             else groups);
          groups2 =
            AList.map_entry key (\<lambda>g. g\<lparr>tg_entries := tg_entries g @ [reg]\<rparr>) groups1;
          groups3 =
            AList.map_entry key
              (\<lambda>g. if map_of (tg_byTrail g) (pr_trailName reg) = None
                   then g\<lparr>tg_byTrail := AList.update (pr_trailName reg) [] (tg_byTrail g)\<rparr>
                   else g) groups2
      in AList.map_entry key
           (\<lambda>g. g\<lparr>tg_byTrail :=
                    AList.map_entry (pr_trailName reg) (\<lambda>es. es @ [reg]) (tg_byTrail g)\<rparr>)
           groups3)"

definition addToTrailGroup ::
  "ProcessedRegistration \<Rightarrow> (string \<times> TrailGroup) list \<Rightarrow> (string \<times> TrailGroup) list"
where
  "addToTrailGroup reg groups =
     (let groups1 =
            (if map_of groups (pr_trailName reg) = None
             then AList.update (pr_trailName reg)
                    \<lparr>trg_entries = [], trg_trailName = pr_trailName reg\<rparr> groups
             else groups)
      in AList.map_entry (pr_trailName reg)
           (\<lambda>g. g\<lparr>trg_entries := trg_entries g @ [reg]\<rparr>) groups1)"

record Groups =
  dailyGroups :: "(string \<times> unit TimeGroup) list"
  weeklyGroups :: "(string \<times> string TimeGroup) list"
  monthlyGroups :: "(string \<times> string TimeGroup) list"
  trailGroups :: "(string \<times> TrailGroup) list"

definition groupRegistration :: "ProcessedRegistration \<Rightarrow> Groups \<Rightarrow> Groups" where
  "groupRegistration reg gs =
     \<lparr>dailyGroups = addToTimeGroup (pr_date reg) () reg (dailyGroups gs),
      weeklyGroups = addToTimeGroup (pr_weekKey reg) (pr_weekLabel reg) reg (weeklyGroups gs),
      monthlyGroups = addToTimeGroup (pr_monthKey reg) (pr_monthLabel reg) reg (monthlyGroups gs),
      trailGroups = addToTrailGroup reg (trailGroups gs)\<rparr>"

text \<open>\<^verbatim>\<open>entries.reduce((sum, reg) => sum + reg.horseCount, 0)\<close>.\<close>

definition sumHorses :: "ProcessedRegistration list \<Rightarrow> int" where
  "sumHorses entries = foldl (\<lambda>sum reg. sum + pr_horseCount reg) 0 entries"

definition trailBreakdown ::
  "(string \<times> ProcessedRegistration list) list \<Rightarrow> (string \<times> TrailBucket) list"
where
  "trailBreakdown byTrailGroups =
     fold (\<lambda>(trailName, entries) byTrail.
             js_assign trailName
               \<lparr>tb_horseCount = sumHorses entries, tb_registrationCount = length entries\<rparr>
               byTrail)
       byTrailGroups []"

definition timeEntry :: "(string \<Rightarrow> 'l \<Rightarrow> string) \<Rightarrow> string \<times> 'l TimeGroup \<Rightarrow> AnalyticsTimeEntry" where
  "timeEntry labelOf entry =
     (case entry of (key, g) \<Rightarrow>
        \<lparr>ate_timeKey = key,
         ate_label = labelOf key (tg_label g),
         ate_totalHorses = sumHorses (tg_entries g),
         ate_totalRegistrations = length (tg_entries g),
         ate_byTrail = trailBreakdown (tg_byTrail g)\<rparr>)"

definition byTimeKey :: "runtime \<Rightarrow> AnalyticsTimeEntry \<Rightarrow> AnalyticsTimeEntry \<Rightarrow> int" where
  "byTimeKey rt a b = localeCompare rt (ate_timeKey a) (ate_timeKey b)"

definition trailSummaries :: "(string \<times> TrailGroup) list \<Rightarrow> (string \<times> TrailSummary) list" where
  "trailSummaries groups =
     fold (\<lambda>(trailName, g) byTrail.
             let totalHorses = sumHorses (trg_entries g);
                 totalRegistrations = length (trg_entries g)
             in js_assign trailName
                  \<lparr>ts_totalHorses = totalHorses,
                   ts_totalRegistrations = totalRegistrations,
                   ts_averageHorsesPerRegistration =
                     (if totalRegistrations > 0
                      then of_int totalHorses / of_nat totalRegistrations else 0)\<rparr>
                  byTrail)
       groups []"

record Grouped =
  daily :: "AnalyticsTimeEntry list"
  weekly :: "AnalyticsTimeEntry list"
  monthly :: "AnalyticsTimeEntry list"
  byTrail :: "(string \<times> TrailSummary) list"

definition processRegistrations :: "runtime \<Rightarrow> ProcessedRegistration list \<Rightarrow> Grouped" where
  "processRegistrations rt registrations =
     (let gs = fold groupRegistration registrations
                 \<lparr>dailyGroups = [], weeklyGroups = [], monthlyGroups = [], trailGroups = []\<rparr>
      in \<lparr>daily = js_sort (byTimeKey rt) (map (timeEntry (\<lambda>date l. date)) (dailyGroups gs)),
          weekly = js_sort (byTimeKey rt) (map (timeEntry (\<lambda>weekKey l. l)) (weeklyGroups gs)),
          monthly = js_sort (byTimeKey rt) (map (timeEntry (\<lambda>monthKey l. l)) (monthlyGroups gs)),
          byTrail = trailSummaries (trailGroups gs)\<rparr>)"

text \<open>
  \<^verbatim>\<open>aggregateAnalytics\<close>: log the start, read the trails and the registrations, group,
  store the snapshot under \<^verbatim>\<open>analytics:data\<close> and cache it under \<^verbatim>\<open>analytics-data\<close> for
  ten minutes.
\<close>

definition aggregateAnalytics :: "runtime \<Rightarrow> world \<Rightarrow> world" where
  "aggregateAnalytics rt w =
     (let trails = StatisticsService_getAllTrails w;
          registrations = StatisticsService_getAllRegistrations rt trails w;
          g = processRegistrations rt registrations;
          analyticsData =
            \<lparr>ad_daily = daily g, ad_weekly = weekly g, ad_monthly = monthly g,
             ad_byTrail = byTrail g, ad_lastUpdated = toISOString rt (clock w)\<rparr>
      in w\<lparr>storage := storage_put ''analytics:data'' (Snapshot analyticsData) (storage w),
           cache := setInCache (clock w) ''analytics-data'' (CAnalytics analyticsData)
                      (10 * 60 * 1000) (cache w),
           aggregationLog := aggregationLog w @ [clock w]\<rparr>)"

section \<open>The registration actor (registration.ts)\<close>

datatype body = Text string | Doc RegistrationData | SuccessTrue

datatype response = Response nat body

definition statusOf :: "response \<Rightarrow> nat" where
  "statusOf r = (case r of Response st b \<Rightarrow> st)"

text \<open>
  \<^verbatim>\<open>{...existingData, ...data}\<close>: a field that \<^verbatim>\<open>data\<close> has overwrites, the others are kept.
\<close>

definition orField :: "'a option \<Rightarrow> 'a option \<Rightarrow> 'a option" where
  "orField a b = (case a of Some x \<Rightarrow> Some x | None \<Rightarrow> b)"

definition mergeRegistration :: "RegistrationData \<Rightarrow> RegistrationData \<Rightarrow> RegistrationData" where
  "mergeRegistration existingData d =
     \<lparr>rd_id = orField (rd_id d) (rd_id existingData),
      rd_trailId = orField (rd_trailId d) (rd_trailId existingData),
      rd_trailName = orField (rd_trailName d) (rd_trailName existingData),
      rd_riderName = orField (rd_riderName d) (rd_riderName existingData),
      rd_email = orField (rd_email d) (rd_email existingData),
      rd_timestamp = orField (rd_timestamp d) (rd_timestamp existingData),
      rd_horseCount = orField (rd_horseCount d) (rd_horseCount existingData),
      rd_comments = orField (rd_comments d) (rd_comments existingData)\<rparr>"

text \<open>
  \<^verbatim>\<open>RegistrationDO.updateRegistration\<close> and \<^verbatim>\<open>RegistrationDO.deleteRegistration\<close>, on
  the actor's document: the response and the document afterwards. \<open>nowIso\<close> is
  \<^verbatim>\<open>new Date().toISOString()\<close>.
\<close>

definition RegistrationDO_updateRegistration ::
  "string \<Rightarrow> RegistrationData option \<Rightarrow> RegistrationData \<Rightarrow> response \<times> RegistrationData option"
where
  "RegistrationDO_updateRegistration nowIso existingData d =
     (case existingData of
        None \<Rightarrow>
          if \<not> truthy (rd_trailId d) \<or> \<not> truthy (rd_riderName d) \<or>
             numOrElse (rd_horseCount d) 0 = 0
          then (Response 400 (Text ''Missing required fields''), None)
          else
            let d1 = (if \<not> truthy (rd_timestamp d) then d\<lparr>rd_timestamp := Some nowIso\<rparr> else d);
                updatedData = d1
            in (Response 200 (Doc updatedData), Some updatedData)
      | Some ex \<Rightarrow>
          let updatedData = mergeRegistration ex d
          in (Response 200 (Doc updatedData), Some updatedData))"

definition RegistrationDO_deleteRegistration ::
  "RegistrationData option \<Rightarrow> response \<times> RegistrationData option"
where
  "RegistrationDO_deleteRegistration existingData =
     (case existingData of
        None \<Rightarrow> (Response 404 (Text ''Registration not found''), None)
      | Some ex \<Rightarrow> (Response 200 SuccessTrue, None))"

text \<open>
  A \<^verbatim>\<open>PUT\<close> or \<^verbatim>\<open>DELETE\<close> sent to the registration actor behind a stored handle: it
  throws for a value that is not an id string and for an actor that cannot be reached,
  and otherwise runs the actor's method on its document.
\<close>

definition registrationPut ::
  "runtime \<Rightarrow> world \<Rightarrow> stored \<Rightarrow> RegistrationData \<Rightarrow> exn + response \<times> world"
where
  "registrationPut rt w v d =
     (case v of
        Handle h \<Rightarrow>
          (case regActors w h of
             Unreachable \<Rightarrow> Inl ActorError
           | Live doc \<Rightarrow>
               (case RegistrationDO_updateRegistration (toISOString rt (clock w)) doc d of
                  (r, doc') \<Rightarrow> Inr (r, w\<lparr>regActors := (regActors w)(h := Live doc')\<rparr>)))
      | _ \<Rightarrow> Inl TypeError)"

definition registrationDelete :: "world \<Rightarrow> stored \<Rightarrow> exn + response \<times> world" where
  "registrationDelete w v =
     (case v of
        Handle h \<Rightarrow>
          (case regActors w h of
             Unreachable \<Rightarrow> Inl ActorError
           | Live doc \<Rightarrow>
               (case RegistrationDO_deleteRegistration doc of
                  (r, doc') \<Rightarrow> Inr (r, w\<lparr>regActors := (regActors w)(h := Live doc')\<rparr>)))
      | _ \<Rightarrow> Inl TypeError)"

section \<open>The registration service (trail-service.ts, lines 589 to 1086)\<close>

text \<open>
  Each operation of the service is modelled as one step at the clock time of the world:
  the other requests and timers of the instance run before or after it.

  \<^verbatim>\<open>setTimeout\<close> appends a pending timer and returns its id, a positive number (here
  the number of timers set so far);
  \<^verbatim>\<open>clearTimeout\<close> removes the timer with that id.
\<close>

definition setTimeout :: "callback \<Rightarrow> int \<Rightarrow> world \<Rightarrow> nat \<times> world" where
  "setTimeout cb delay w =
     (timersSet w + 1,
      w\<lparr>timers := timers w @
             [\<lparr>timer_id = timersSet w + 1, timer_due = clock w + delay, timer_callback = cb\<rparr>],
        timersSet := timersSet w + 1\<rparr>)"

definition clearTimeout :: "nat \<Rightarrow> world \<Rightarrow> world" where
  "clearTimeout i w = w\<lparr>timers := filter (\<lambda>x. timer_id x \<noteq> i) (timers w)\<rparr>"

text \<open>
  \<^verbatim>\<open>triggerAnalyticsAggregation\<close> defers the aggregation by 100 ms, and
  \<^verbatim>\<open>invalidateAllCaches\<close> invalidates its list of prefixes and then triggers it.
\<close>

definition triggerAnalyticsAggregation :: "world \<Rightarrow> world" where
  "triggerAnalyticsAggregation w = snd (setTimeout DeferredAggregation 100 w)"

definition invalidateAllCaches :: "string option \<Rightarrow> world \<Rightarrow> world" where
  "invalidateAllCaches trailId w =
     (let c1 = invalidateCache ''all-registrations'' (cache w);
          c2 = invalidateCache ''summary-statistics'' c1;
          c3 = invalidateCache ''registrations:'' c2;
          c4 = invalidateCache ''analytics-data'' c3;
          c5 = invalidateCache ''all-trails'' c4;
          c6 = invalidateCache ''trails-name-map'' c5;
          c7 = (case truthyStr trailId of
                  Some t \<Rightarrow>
                    invalidateCache (''trail:'' @ t)
                      (invalidateCache (''trail-horse-count:'' @ t)
                         (invalidateCache (''trail-reg-count:'' @ t) c6))
                | None \<Rightarrow> c6)
      in triggerAnalyticsAggregation (w\<lparr>cache := c7\<rparr>))"

text \<open>
  \<^verbatim>\<open>debounceInvalidateCache\<close>: a pending timer under the key (the trail id, or
  \<^verbatim>\<open>'global'\<close>) is cleared, and a new timer of 2000 ms is set and recorded under the key.
  \<^verbatim>\<open>cacheInvalidationTimers\<close> is a plain object; an inherited property is truthy and
  \<^verbatim>\<open>clearTimeout\<close> of it clears nothing.
\<close>

definition debounceInvalidateCache :: "string option \<Rightarrow> world \<Rightarrow> world" where
  "debounceInvalidateCache trailId w =
     (let key = orElse trailId ''global'';
          w1 = (case js_property (cacheInvalidationTimers w) key of
                  Own i \<Rightarrow> if i \<noteq> 0 then clearTimeout i w else w
                | _ \<Rightarrow> w)
      in case setTimeout (DebouncedInvalidate trailId) 2000 w1 of
           (i, w2) \<Rightarrow>
             w2\<lparr>cacheInvalidationTimers := js_assign key i (cacheInvalidationTimers w2)\<rparr>)"

text \<open>
  Running a timer's callback. The debounced callback invalidates and then deletes its
  key from \<^verbatim>\<open>cacheInvalidationTimers\<close>; the deferred aggregation calls
  \<^verbatim>\<open>aggregateStatistics\<close>, which is \<^verbatim>\<open>aggregateAnalytics\<close>.
\<close>

definition fire :: "runtime \<Rightarrow> callback \<Rightarrow> world \<Rightarrow> world" where
  "fire rt cb w =
     (case cb of
        DebouncedInvalidate trailId \<Rightarrow>
          (let w1 = invalidateAllCaches trailId w
           in w1\<lparr>cacheInvalidationTimers :=
                   AList.delete (orElse trailId ''global'') (cacheInvalidationTimers w1)\<rparr>)
      | DeferredAggregation \<Rightarrow> aggregateAnalytics rt w)"

text \<open>
  The event loop up to time \<open>t\<close>: as long as a timer is due at or before \<open>t\<close>, the one
  that is due first (the one set first among equals) is taken off the list and run at
  its due time; then the clock is \<open>t\<close>.
\<close>

definition nextTimer :: "int \<Rightarrow> timer list \<Rightarrow> timer option" where
  "nextTimer t ts =
     (case filter (\<lambda>x. timer_due x \<le> t) ts of
        [] \<Rightarrow> None
      | x # xs \<Rightarrow> Some (fold (\<lambda>y m. if timer_due y < timer_due m then y else m) xs x))"

definition timerWeight :: "timer list \<Rightarrow> nat" where
  "timerWeight ts =
     sum_list (map (\<lambda>x. case timer_callback x of
                           DebouncedInvalidate trailId \<Rightarrow> 2
                         | DeferredAggregation \<Rightarrow> 1) ts)"

definition fireNext :: "runtime \<Rightarrow> timer \<Rightarrow> world \<Rightarrow> world" where
  "fireNext rt x w =
     fire rt (timer_callback x)
       (w\<lparr>timers := filter (\<lambda>y. timer_id y \<noteq> timer_id x) (timers w),
          clock := max (clock w) (timer_due x)\<rparr>)"

function runTimers :: "runtime \<Rightarrow> int \<Rightarrow> world \<Rightarrow> world" where
  "runTimers rt t w =
     (case nextTimer t (timers w) of
        None \<Rightarrow> w\<lparr>clock := max (clock w) t\<rparr>
      | Some x \<Rightarrow> runTimers rt t (fireNext rt x w))"
  by pat_completeness auto

termination runTimers
proof (relation "measure (\<lambda>(rt, t, w). timerWeight (timers w))")
  show "wf (measure (\<lambda>(rt :: runtime, t :: int, w :: world). timerWeight (timers w)))"
    by simp
next
  fix rt :: runtime and t :: int and w :: world and x :: timer
  assume nx: "nextTimer t (timers w) = Some x"
  let ?cw = "\<lambda>x. case timer_callback x of
                     DebouncedInvalidate trailId \<Rightarrow> 2 :: nat
                   | DeferredAggregation \<Rightarrow> 1"
  let ?rest = "filter (\<lambda>y. timer_id y \<noteq> timer_id x) (timers w)"
  let ?w0 = "w\<lparr>timers := ?rest, clock := max (clock w) (timer_due x)\<rparr>"
  have pick: "fold (\<lambda>y m. if timer_due y < timer_due m then y else m) ys y \<in> insert y (set ys)"
    for ys :: "timer list" and y
    by (induction ys arbitrary: y) auto
  obtain y ys where due: "filter (\<lambda>x. timer_due x \<le> t) (timers w) = y # ys"
    and x: "x = fold (\<lambda>y m. if timer_due y < timer_due m then y else m) ys y"
    using nx by (auto simp: nextTimer_def split: list.splits)
  have "x \<in> set (y # ys)" using pick [of ys y] x by simp
  then have "x \<in> set (filter (\<lambda>x. timer_due x \<le> t) (timers w))" using due by simp
  then have mem: "x \<in> set (timers w)" by simp
  have mono: "sum_list (map ?cw (filter P ts)) \<le> sum_list (map ?cw ts)"
    for P and ts :: "timer list"
    by (induction ts) auto
  have drop: "x \<in> set ts \<Longrightarrow>
                sum_list (map ?cw (filter (\<lambda>y. timer_id y \<noteq> timer_id x) ts)) + ?cw x
                  \<le> sum_list (map ?cw ts)" for ts
  proof (induction ts)
    case Nil
    then show ?case by simp
  next
    case (Cons a ts)
    then show ?case
      using mono [of "\<lambda>y. timer_id y \<noteq> timer_id x" ts] by auto
  qed
  have less: "timerWeight ?rest + ?cw x \<le> timerWeight (timers w)"
    using drop [OF mem] by (simp add: timerWeight_def)
  have after: "timerWeight (timers (fire rt (timer_callback x) ?w0)) < timerWeight ?rest + ?cw x"
    by (cases "timer_callback x")
       (simp_all add: fire_def invalidateAllCaches_def triggerAnalyticsAggregation_def
          setTimeout_def aggregateAnalytics_def timerWeight_def Let_def)
  have "timerWeight (timers (fireNext rt x w)) < timerWeight (timers w)"
    using less after by (simp add: fireNext_def)
  then show "((rt, t, fireNext rt x w), (rt, t, w))
               \<in> measure (\<lambda>(rt, t, w). timerWeight (timers w))"
    by simp
qed

declare runTimers.simps [simp del]

text \<open>
  The operations of the service return what the caller gets, a response or (\<open>Inl\<close>) an
  exception that was not caught, together with the world they leave.

  \<^verbatim>\<open>updateTrailRegistrationsMap\<close> appends the registration id to the trail's list, and
  the filter in \<^verbatim>\<open>deleteRegistration\<close> removes it. A stored value without a
  \<^verbatim>\<open>registrationIds\<close> list makes them throw a TypeError, unless it is falsy.
\<close>

definition updateTrailRegistrationsMap :: "string \<Rightarrow> string \<Rightarrow> storage \<Rightarrow> exn + storage" where
  "updateTrailRegistrationsMap trailId registrationId s =
     (let key = ''trail_registrations:'' @ trailId
      in case storage_get s key of
           None \<Rightarrow> Inr (storage_put key (RegistrationIds [registrationId]) s)
         | Some (RegistrationIds ids) \<Rightarrow>
             Inr (storage_put key (RegistrationIds (ids @ [registrationId])) s)
         | Some (Handle h) \<Rightarrow>
             if h = [] then Inr (storage_put key (RegistrationIds [registrationId]) s)
             else Inl TypeError
         | Some (Snapshot a) \<Rightarrow> Inl TypeError)"

definition removeFromTrailIndex :: "string \<Rightarrow> string \<Rightarrow> storage \<Rightarrow> exn + storage" where
  "removeFromTrailIndex trailId registrationId s =
     (let key = ''trail_registrations:'' @ trailId
      in case storage_get s key of
           None \<Rightarrow> Inr s
         | Some (RegistrationIds ids) \<Rightarrow>
             Inr (storage_put key (RegistrationIds (filter (\<lambda>i. i \<noteq> registrationId) ids)) s)
         | Some (Handle h) \<Rightarrow> if h = [] then Inr s else Inl TypeError
         | Some (Snapshot a) \<Rightarrow> Inl TypeError)"

text \<open>
  \<^verbatim>\<open>createRegistration\<close>. The new registration id (\<^verbatim>\<open>crypto.randomUUID()\<close>) and the id
  of the new actor (\<^verbatim>\<open>newUniqueId()\<close>) are arguments. Everything after the check of the
  trail id runs in a \<^verbatim>\<open>try\<close> whose \<^verbatim>\<open>catch\<close> answers 500 with a text that starts with
  \<^verbatim>\<open>Error creating registration\<close> (the error's message, which follows, is left out).
\<close>

definition createRegistration ::
  "runtime \<Rightarrow> string \<Rightarrow> string \<Rightarrow> RegistrationData \<Rightarrow> world \<Rightarrow> response \<times> world"
where
  "createRegistration rt registrationId registrationObjectId d w =
     (case truthyStr (rd_trailId d) of
        None \<Rightarrow> (Response 400 (Text ''Trail ID is required''), w)
      | Some trailId \<Rightarrow>
          (case storage_get (storage w) (''trail:'' @ trailId) of
             None \<Rightarrow> (Response 404 (Text ''Trail not found''), w)
           | Some trailObjectId \<Rightarrow>
               if falsyStored trailObjectId then (Response 404 (Text ''Trail not found''), w)
               else
                 (case registrationPut rt w (Handle registrationObjectId)
                         (d\<lparr>rd_id := Some registrationId\<rparr>) of
                    Inl e \<Rightarrow> (Response 500 (Text ''Error creating registration''), w)
                  | Inr (r, w1) \<Rightarrow>
                      if statusOf r = 200 then
                        (let w2 = w1\<lparr>storage :=
                                     storage_put (''registration:'' @ registrationId)
                                       (Handle registrationObjectId) (storage w1)\<rparr>
                         in case updateTrailRegistrationsMap trailId registrationId
                                   (storage w2) of
                              Inl e \<Rightarrow> (Response 500 (Text ''Error creating registration''), w2)
                            | Inr s \<Rightarrow>
                                (r, debounceInvalidateCache (Some trailId) (w2\<lparr>storage := s\<rparr>)))
                      else (r, w1))))"

text \<open>\<^verbatim>\<open>updateRegistration\<close>: nothing is caught.\<close>

definition updateRegistration ::
  "runtime \<Rightarrow> string \<Rightarrow> RegistrationData \<Rightarrow> world \<Rightarrow> (exn + response) \<times> world"
where
  "updateRegistration rt registrationId d w =
     (case storage_get (storage w) (''registration:'' @ registrationId) of
        None \<Rightarrow> (Inr (Response 404 (Text ''Registration not found'')), w)
      | Some registrationObjectId \<Rightarrow>
          if falsyStored registrationObjectId
          then (Inr (Response 404 (Text ''Registration not found'')), w)
          else
            (case fetchRegistration w registrationObjectId of
               Inl e \<Rightarrow> (Inl e, w)
             | Inr (status, originalBody) \<Rightarrow>
                 if status = 200 \<and> originalBody = None then (Inl TypeError, w)
                 else
                   (let originalData = (if status = 200 then originalBody else None)
                    in case registrationPut rt w registrationObjectId d of
                         Inl e \<Rightarrow> (Inl e, w)
                       | Inr (r, w1) \<Rightarrow>
                           if statusOf r = 200 then
                             (let w2 =
                                    (case originalData of
                                       Some od \<Rightarrow>
                                         (case truthyStr (rd_trailId od) of
                                            Some t \<Rightarrow> invalidateAllCaches (Some t) w1
                                          | None \<Rightarrow> w1)
                                     | None \<Rightarrow> w1);
                                  w3 =
                                    (case truthyStr (rd_trailId d) of
                                       Some nt \<Rightarrow>
                                         (case originalData of
                                            Some od \<Rightarrow>
                                              if Some nt \<noteq> rd_trailId od
                                              then invalidateAllCaches (Some nt) w2 else w2
                                          | None \<Rightarrow> w2)
                                     | None \<Rightarrow> w2)
                              in (Inr r, w3))
                           else (Inr r, w1))))"

text \<open>
  \<^verbatim>\<open>deleteRegistration\<close>: nothing is caught. The mapping is deleted after the first
  fetch and the update of the trail's list, before the actor is told to delete itself.
\<close>

definition deleteRegistration :: "string \<Rightarrow> world \<Rightarrow> (exn + response) \<times> world" where
  "deleteRegistration registrationId w =
     (case storage_get (storage w) (''registration:'' @ registrationId) of
        None \<Rightarrow> (Inr (Response 404 (Text ''Registration not found'')), w)
      | Some registrationObjectId \<Rightarrow>
          if falsyStored registrationObjectId
          then (Inr (Response 404 (Text ''Registration not found'')), w)
          else
            (case fetchRegistration w registrationObjectId of
               Inl e \<Rightarrow> (Inl e, w)
             | Inr (status, body0) \<Rightarrow>
                 if status = 200 \<and> body0 = None then (Inl TypeError, w)
                 else
                   (let trailId =
                          (if status = 200
                           then (case body0 of Some d \<Rightarrow> truthyStr (rd_trailId d) | None \<Rightarrow> None)
                           else None)
                    in case (case trailId of
                               Some t \<Rightarrow> removeFromTrailIndex t registrationId (storage w)
                             | None \<Rightarrow> Inr (storage w)) of
                         Inl e \<Rightarrow> (Inl e, w)
                       | Inr s1 \<Rightarrow>
                           (let w1 = w\<lparr>storage :=
                                        storage_delete (''registration:'' @ registrationId) s1\<rparr>
                            in case registrationDelete w1 registrationObjectId of
                                 Inl e \<Rightarrow> (Inl e, w1)
                               | Inr (deleteResponse, w2) \<Rightarrow>
                                   if statusOf deleteResponse = 200 \<and> trailId \<noteq> None
                                   then (Inr deleteResponse, invalidateAllCaches trailId w2)
                                   else (Inr deleteResponse, w2)))))"

section \<open>Predicates of the statements and sample states\<close>



text \<open>
  The pages in the cache are pages the view stored: under the key of a request lies, if
  a page at all, a page that echoes the request's page and limit as JSON and holds at
  most 100 items.
\<close>

definition pageCacheOk :: "cached cache \<Rightarrow> bool" where
  "pageCacheOk c =
     (\<forall>page limit tf sd ed tz e r.
        map_of c (registrationsCacheKey page limit tf sd ed tz) = Some e \<longrightarrow>
        data e = CPage r \<longrightarrow>
        pg_page (resp_pagination r) = toJSON page \<and>
        pg_limit (resp_pagination r) = toJSON limit \<and>
        length (resp_data r) \<le> 100)"

text \<open>
  A runtime in UTC that knows two timestamps: Wednesday 28 February 2024 and Wednesday
  6 March 2024, both at noon. 1 January 2024 was a Monday (\<^verbatim>\<open>getDay() = 1\<close>) and began
  at 1704067200000 ms. Its collation is the code-unit comparison, which agrees with
  the runtime's on the strings it is used on below: equal timestamps, and keys that
  first differ at a decimal digit.
\<close>

definition sampleRuntime :: runtime where
  "sampleRuntime =
     \<lparr>parseDate = map_of
        [(''2024-02-28T12:00:00.000Z'',
          \<lparr>d_isoDate = ''2024-02-28'', d_fullYear = 2024, d_month = 1,
           d_time = 1709121600000, d_jan1Time = 1704067200000, d_jan1Day = 1\<rparr>),
         (''2024-03-06T12:00:00.000Z'',
          \<lparr>d_isoDate = ''2024-03-06'', d_fullYear = 2024, d_month = 2,
           d_time = 1709726400000, d_jan1Time = 1704067200000, d_jan1Day = 1\<rparr>)],
      formatInZone = (\<lambda>tz ts. None),
      toISOString = (\<lambda>t. ''T'' @ show_int t),
      collation = compareCodeUnits\<rparr>"

definition sampleRegistration :: RegistrationData where
  "sampleRegistration =
     \<lparr>rd_id = Some ''r'', rd_trailId = Some ''T1'', rd_trailName = None,
      rd_riderName = Some ''A'', rd_email = None,
      rd_timestamp = Some ''2024-02-28T12:00:00.000Z'', rd_horseCount = Some 2,
      rd_comments = None\<rparr>"

text \<open>
  \<open>sampleStorage n k\<close> lists \<open>n\<close> registration mappings; all share the handle \<open>h\<close>
  but the one at index \<open>k\<close>, whose handle is \<open>odd\<close>.
\<close>

definition sampleStorage :: "nat \<Rightarrow> nat \<Rightarrow> storage" where
  "sampleStorage n k =
     map (\<lambda>i. (''registration:r'' @ show_nat i, Handle (if i = k then ''odd'' else ''h'')))
       [0..<n]"

definition sampleWorld :: "storage \<Rightarrow> RegistrationData actor \<Rightarrow> world" where
  "sampleWorld s oddActor =
     \<lparr>storage = s,
      trailActors = (\<lambda>h. Live None),
      regActors = (\<lambda>h. if h = ''odd'' then oddActor else Live (Some sampleRegistration)),
      cache = [], clock = 0, timers = [], timersSet = 0,
      cacheInvalidationTimers = [], aggregationLog = []\<rparr>"

text \<open>25 registrations, all readable.\<close>

definition world25 :: world where
  "world25 = sampleWorld (sampleStorage 25 25) (Live None)"



text \<open>
  The snapshot stored under \<^verbatim>\<open>analytics:data\<close> and its grouped part (all but
  \<^verbatim>\<open>lastUpdated\<close>).
\<close>

definition snapshot :: "world \<Rightarrow> AnalyticsData option" where
  "snapshot w =
     (case storage_get (storage w) ''analytics:data'' of
        Some (Snapshot a) \<Rightarrow> Some a
      | _ \<Rightarrow> None)"

definition grouping :: "AnalyticsData \<Rightarrow> Grouped" where
  "grouping a =
     \<lparr>daily = ad_daily a, weekly = ad_weekly a, monthly = ad_monthly a, byTrail = ad_byTrail a\<rparr>"

text \<open>
  A registration entry whose actor call fails: the call throws, or answers with a
  status other than 200.
\<close>

definition actorCallFails :: "world \<Rightarrow> string \<times> stored \<Rightarrow> bool" where
  "actorCallFails w entry =
     (case fetchRegistration w (snd entry) of
        Inl e \<Rightarrow> True
      | Inr (status, body) \<Rightarrow> status \<noteq> 200)"

text \<open>
  A registration entry the aggregator can process: a non-empty handle whose actor
  answers with a document that has a timestamp the runtime can parse.
\<close>

definition aggregatable :: "runtime \<Rightarrow> world \<Rightarrow> string \<times> stored \<Rightarrow> bool" where
  "aggregatable rt w entry =
     (case snd entry of
        Handle h \<Rightarrow>
          h \<noteq> [] \<and>
          (case regActors w h of
             Live (Some d) \<Rightarrow>
               (case truthyStr (rd_timestamp d) of
                  None \<Rightarrow> False
                | Some ts \<Rightarrow> parseDate rt ts \<noteq> None)
           | _ \<Rightarrow> False)
      | _ \<Rightarrow> False)"

text \<open>
  50 registrations in one batch; the actor of the eighth cannot be reached.
\<close>

definition world50 :: world where
  "world50 = sampleWorld (sampleStorage 50 7) Unreachable"

text \<open>
  Two registrations: one of 28 February 2024, in week 9 by \<^verbatim>\<open>getWeekNumber\<close>, and one
  of 6 March 2024, in week 10.
\<close>

definition world2 :: world where
  "world2 =
     sampleWorld [(''registration:a'', Handle ''h''), (''registration:b'', Handle ''odd'')]
       (Live (Some (sampleRegistration\<lparr>rd_timestamp := Some ''2024-03-06T12:00:00.000Z''\<rparr>)))"

text \<open>
  The trail's registration list, under \<^verbatim>\<open>trail_registrations:<trailId>\<close>, is absent or
  holds a \<^verbatim>\<open>registrationIds\<close> list.
\<close>

definition trailListStored :: "storage \<Rightarrow> string \<Rightarrow> bool" where
  "trailListStored s trailId =
     (case storage_get s (''trail_registrations:'' @ trailId) of
        None \<Rightarrow> True
      | Some (RegistrationIds ids) \<Rightarrow> True
      | Some v \<Rightarrow> False)"

text \<open>
  One registration mapping whose actor holds no document, and one whose actor cannot be
  reached.
\<close>

definition worldOrphan :: world where
  "worldOrphan = sampleWorld [(''registration:x'', Handle ''odd'')] (Live None)"

definition worldLost :: world where
  "worldLost = sampleWorld [(''registration:x'', Handle ''odd'')] Unreachable"

text \<open>
  A quiet instance with the trail \<open>T1\<close> and no registration, in which every
  registration actor is new; and one with a registration of trail \<open>T1\<close>. The update
  sets the horse count of a registration to 3.
\<close>

definition worldQuiet :: world where
  "worldQuiet =
     (sampleWorld [(''trail:T1'', Handle ''t'')] (Live None))\<lparr>regActors := (\<lambda>h. Live None)\<rparr>"

definition worldOne :: world where
  "worldOne =
     sampleWorld [(''trail:T1'', Handle ''t''), (''registration:x'', Handle ''h'')] (Live None)"

definition threeHorses :: RegistrationData where
  "threeHorses =
     \<lparr>rd_id = None, rd_trailId = None, rd_trailName = None, rd_riderName = None,
      rd_email = None, rd_timestamp = None, rd_horseCount = Some 3, rd_comments = None\<rparr>"

section \<open>Properties of the cache\<close>

lemma fold_delete_filter:
  "fold (\<lambda>key c'. if P key then AList.delete key c' else c') ks c =
     filter (\<lambda>(k, v). \<not> (P k \<and> k \<in> set ks)) c"
proof (induction ks arbitrary: c)
  case Nil
  then show ?case by simp
next
  case (Cons a ks)
  show ?case
  proof (cases "P a")
    case True
    have "fold (\<lambda>key c'. if P key then AList.delete key c' else c') (a # ks) c =
          filter (\<lambda>(k, v). \<not> (P k \<and> k \<in> set ks)) (AList.delete a c)"
      using True Cons.IH by simp
    also have "\<dots> = filter (\<lambda>(k, v). \<not> (P k \<and> k \<in> set (a # ks))) c"
      using True by (induction c) (auto simp: AList.delete_eq)
    finally show ?thesis .
  next
    case False
    have "fold (\<lambda>key c'. if P key then AList.delete key c' else c') (a # ks) c =
          filter (\<lambda>(k, v). \<not> (P k \<and> k \<in> set ks)) c"
      using False Cons.IH by simp
    also have "\<dots> = filter (\<lambda>(k, v). \<not> (P k \<and> k \<in> set (a # ks))) c"
      using False by (induction c) auto
    finally show ?thesis .
  qed
qed

lemma invalidateCache_filter:
  "invalidateCache p c = filter (\<lambda>(k, v). \<not> prefix p k) c"
proof -
  have "invalidateCache p c = filter (\<lambda>(k, v). \<not> (prefix p k \<and> k \<in> set (map fst c))) c"
    unfolding invalidateCache_def by (rule fold_delete_filter)
  also have "\<dots> = filter (\<lambda>(k, v). \<not> prefix p k) c"
    by (rule filter_cong) force+
  finally show ?thesis .
qed

lemma map_of_filter_key:
  "map_of (filter (\<lambda>(k, v). Q k) c) k = (if Q k then map_of c k else None)"
  by (induction c) auto

lemma map_of_invalidateCache:
  "map_of (invalidateCache p c) k = (if prefix p k then None else map_of c k)"
  by (simp add: invalidateCache_filter map_of_filter_key)

lemma map_of_setInCache:
  "map_of (setInCache now key d ttl c) k =
     (if k = key then Some \<lparr>data = d, expires = now + ttl\<rparr> else map_of c k)"
  by (simp add: setInCache_def update_conv')

text \<open>
  C2, as the code has it. An entry set at \<open>now\<close> with \<open>ttl\<close> is returned by every
  \<^verbatim>\<open>getFromCache\<close> at a time \<open>t\<close> from \<open>now\<close> up to and including \<open>now + ttl\<close>, and the
  cache is left as it was; at every time strictly after \<open>now + ttl\<close> the call returns
  \<^verbatim>\<open>null\<close> and the entry is gone from the table afterwards, the other keys keeping
  their entries.
\<close>

theorem cache_set_get:
  "(now \<le> t \<and> t \<le> now + ttl \<longrightarrow>
      getFromCache t key (setInCache now key v ttl c) =
        (Some v, setInCache now key v ttl c)) \<and>
   (now + ttl < t \<longrightarrow>
      fst (getFromCache t key (setInCache now key v ttl c)) = None \<and>
      map_of (snd (getFromCache t key (setInCache now key v ttl c))) key = None \<and>
      (\<forall>k. k \<noteq> key \<longrightarrow>
          map_of (snd (getFromCache t key (setInCache now key v ttl c))) k = map_of c k))"
  by (simp add: getFromCache_def map_of_setInCache delete_conv')

theorem cache_set_get_witness:
  "getFromCache 5 ''k'' (setInCache 5 ''k'' (7::int) 30000 []) =
     (Some 7, setInCache 5 ''k'' 7 30000 []) \<and>
   fst (getFromCache 30006 ''k'' (setInCache 5 ''k'' (7::int) 30000 [])) = None \<and>
   map_of (snd (getFromCache 30006 ''k'' (setInCache 5 ''k'' (7::int) 30000 []))) ''k'' = None"
  using cache_set_get [of 5 5 30000 "''k''" "7::int" "[]"]
    cache_set_get [of 5 30006 30000 "''k''" "7::int" "[]"]
  by simp

text \<open>
  C2, as the claim states it, fails at the instant the time-to-live has elapsed: the
  test is \<^verbatim>\<open>Date.now() > entry.expires\<close>, so an entry set at time 0 with a ttl of
  1000 ms is still returned at time 1000.
\<close>

theorem cache_expiry_boundary_counterexample:
  "fst (getFromCache 1000 ''k'' (setInCache 0 ''k'' (7::int) 1000 [])) = Some 7"
  by (simp add: getFromCache_def setInCache_def)

text \<open>
  C3. After \<^verbatim>\<open>invalidateCache(p)\<close>, \<^verbatim>\<open>getFromCache(k)\<close> returns \<^verbatim>\<open>null\<close> at any time for
  every key \<open>k\<close> that starts with \<open>p\<close>, every key that does not start with \<open>p\<close> keeps
  its entry (same value, same expiry), and the table is the old one with exactly the
  matching keys removed, all by the one call.
\<close>

theorem invalidate_prefix:
  "(prefix p k \<longrightarrow> fst (getFromCache now k (invalidateCache p c)) = None) \<and>
   (\<not> prefix p k \<longrightarrow> map_of (invalidateCache p c) k = map_of c k) \<and>
   invalidateCache p c = filter (\<lambda>(k', e). \<not> prefix p k') c"
proof (intro conjI impI)
  assume "prefix p k"
  then show "fst (getFromCache now k (invalidateCache p c)) = None"
    by (simp add: getFromCache_def map_of_invalidateCache)
next
  assume "\<not> prefix p k"
  then show "map_of (invalidateCache p c) k = map_of c k"
    by (simp add: map_of_invalidateCache)
next
  show "invalidateCache p c = filter (\<lambda>(k', e). \<not> prefix p k') c"
    by (rule invalidateCache_filter)
qed

theorem invalidate_prefix_witness:
  "fst (getFromCache 0 ''registrations:1:10''
      (invalidateCache ''registrations:''
         [(''registrations:1:10'', \<lparr>data = 1::int, expires = 9\<rparr>),
          (''all-trails'', \<lparr>data = 2, expires = 9\<rparr>)])) = None \<and>
   map_of (invalidateCache ''registrations:''
         [(''registrations:1:10'', \<lparr>data = 1::int, expires = 9\<rparr>),
          (''all-trails'', \<lparr>data = 2, expires = 9\<rparr>)]) ''all-trails'' =
     Some \<lparr>data = 2, expires = 9\<rparr>"
  using invalidate_prefix [of "''registrations:''" "''registrations:1:10''" 0
      "[(''registrations:1:10'', \<lparr>data = 1::int, expires = 9\<rparr>),
        (''all-trails'', \<lparr>data = 2, expires = 9\<rparr>)]"]
    invalidate_prefix [of "''registrations:''" "''all-trails''" 0
      "[(''registrations:1:10'', \<lparr>data = 1::int, expires = 9\<rparr>),
        (''all-trails'', \<lparr>data = 2, expires = 9\<rparr>)]"]
  by simp

section \<open>Properties of the paginated registration view\<close>

lemma batchLoop_concat:
  "batchLoop n es cur bs = (bs', cur') \<Longrightarrow> concat bs' @ cur' = concat bs @ cur @ es"
proof (induction es arbitrary: cur bs)
  case Nil
  then show ?case by simp
next
  case (Cons e es)
  show ?case
  proof (cases "length (cur @ [e]) \<ge> n")
    case True
    with Cons.prems have "batchLoop n es [] (bs @ [cur @ [e]]) = (bs', cur')"
      by (simp add: Let_def)
    from Cons.IH [OF this] show ?thesis by simp
  next
    case False
    with Cons.prems have "batchLoop n es (cur @ [e]) bs = (bs', cur')"
      by (simp add: Let_def)
    from Cons.IH [OF this] show ?thesis by simp
  qed
qed

lemma concat_makeBatches: "concat (makeBatches n es) = es"
proof -
  obtain bs cur where b: "batchLoop n es [] [] = (bs, cur)"
    by (cases "batchLoop n es [] []")
  from batchLoop_concat [OF b] have "concat bs @ cur = es" by simp
  then show ?thesis
    unfolding makeBatches_def b by auto
qed

lemma fold_append_concat:
  "fold (\<lambda>b acc. acc @ g b) bs acc = acc @ concat (map g bs)"
  by (induction bs arbitrary: acc) auto

lemma nonNull_append: "nonNull (xs @ ys) = nonNull xs @ nonNull ys"
  by (induction xs rule: nonNull.induct) auto

lemma nonNull_map_concat:
  "concat (map (\<lambda>b. nonNull (map h b)) bs) = nonNull (map h (concat bs))"
  by (induction bs) (auto simp: nonNull_append)

lemma fanout_flat:
  "fold (\<lambda>b acc. acc @ nonNull (map h b)) (makeBatches n es) [] = nonNull (map h es)"
  by (simp add: fold_append_concat nonNull_map_concat concat_makeBatches)




lemma of_char_digit: "d < 10 \<Longrightarrow> of_char (digit d) = 48 + d"
  by (simp add: digit_def)

lemma digit_inj: "d < 10 \<Longrightarrow> d' < 10 \<Longrightarrow> digit d = digit d' \<Longrightarrow> d = d'"
proof -
  assume a: "d < 10" "d' < 10" and e: "digit d = digit d'"
  have "48 + d = (of_char (digit d) :: nat)" using a by (simp add: of_char_digit)
  also have "\<dots> = of_char (digit d')" by (simp only: e)
  also have "\<dots> = 48 + d'" using a by (simp add: of_char_digit)
  finally show ?thesis by simp
qed

lemma digit_not_special:
  assumes "d < 10"
  shows "digit d \<notin> {CHR '':'', CHR ''-'', CHR ''N'', CHR ''a''}"
proof
  assume "digit d \<in> {CHR '':'', CHR ''-'', CHR ''N'', CHR ''a''}"
  then have "(of_char (digit d) :: nat) \<in> {58, 45, 78, 97}" by auto
  with of_char_digit [OF assms] assms show False by auto
qed

lemma show_nat_chars: "set (show_nat n) \<subseteq> digit ` {..<10}"
proof (induction n rule: show_nat.induct)
  case (1 n)
  show ?case
  proof (cases "n < 10")
    case True
    then show ?thesis by (subst show_nat.simps) auto
  next
    case False
    have "n mod 10 < 10" by simp
    with False 1 show ?thesis by (subst show_nat.simps) auto
  qed
qed

lemma show_nat_not_special:
  "c \<in> set (show_nat n) \<Longrightarrow> c \<notin> {CHR '':'', CHR ''-'', CHR ''N'', CHR ''a''}"
proof -
  assume "c \<in> set (show_nat n)"
  then obtain d where "d < 10" "c = digit d" using show_nat_chars [of n] by auto
  then show ?thesis using digit_not_special [of d] by simp
qed

lemma show_nat_nonempty: "show_nat n \<noteq> []"
  by (subst show_nat.simps) simp

lemma show_nat_inj: "show_nat n = show_nat m \<Longrightarrow> n = m"
proof (induction n arbitrary: m rule: show_nat.induct)
  case (1 n)
  show ?case
  proof (cases "n < 10")
    case n: True
    show ?thesis
    proof (cases "m < 10")
      case True
      with n "1.prems" show ?thesis
        by (simp add: show_nat.simps [of n] show_nat.simps [of m] digit_inj)
    next
      case False
      with n "1.prems" show_nat_nonempty [of "m div 10"] show ?thesis
        by (simp add: show_nat.simps [of n] show_nat.simps [of m])
    qed
  next
    case n: False
    show ?thesis
    proof (cases "m < 10")
      case True
      with n "1.prems" show_nat_nonempty [of "n div 10"] show ?thesis
        by (simp add: show_nat.simps [of n] show_nat.simps [of m])
    next
      case False
      with n "1.prems" have e: "show_nat (n div 10) = show_nat (m div 10)"
        and d: "digit (n mod 10) = digit (m mod 10)"
        by (simp_all add: show_nat.simps [of n] show_nat.simps [of m])
      from "1.IH" [OF n e] have "n div 10 = m div 10" .
      moreover from d have "n mod 10 = m mod 10" by (simp add: digit_inj)
      ultimately show ?thesis by (metis div_mult_mod_eq)
    qed
  qed
qed

lemma show_int_not_colon: "CHR '':'' \<notin> set (show_int i)"
  using show_nat_not_special by (auto simp: show_int_def)

lemma show_int_inj: "show_int i = show_int j \<Longrightarrow> i = j"
proof -
  assume e: "show_int i = show_int j"
  have hd: "\<And>n. hd (show_nat n) \<noteq> CHR ''-''"
    using show_nat_not_special show_nat_nonempty by (metis hd_in_set insertCI)
  show ?thesis
  proof (cases "i < 0")
    case i: True
    show ?thesis
    proof (cases "j < 0")
      case True
      with i e have "show_nat (nat (- i)) = show_nat (nat (- j))" by (simp add: show_int_def)
      then have "nat (- i) = nat (- j)" by (rule show_nat_inj)
      with i True show ?thesis by simp
    next
      case False
      with i e have "CHR ''-'' # show_nat (nat (- i)) = show_nat (nat j)"
        by (simp add: show_int_def)
      then have "hd (show_nat (nat j)) = CHR ''-''" by (metis list.sel(1))
      with hd show ?thesis by blast
    qed
  next
    case i: False
    show ?thesis
    proof (cases "j < 0")
      case True
      with i e have "show_nat (nat i) = CHR ''-'' # show_nat (nat (- j))"
        by (simp add: show_int_def)
      then have "hd (show_nat (nat i)) = CHR ''-''" by (metis list.sel(1))
      with hd show ?thesis by blast
    next
      case False
      with i e have "show_nat (nat i) = show_nat (nat j)" by (simp add: show_int_def)
      then have "nat i = nat j" by (rule show_nat_inj)
      with i False show ?thesis by simp
    qed
  qed
qed

lemma js_show_not_colon: "CHR '':'' \<notin> set (js_show x)"
  using show_int_not_colon by (cases x) (auto simp: js_show_def)

lemma js_show_inj: "js_show x = js_show y \<Longrightarrow> x = y"
proof -
  assume e: "js_show x = js_show y"
  have nan: "\<And>i. show_int i \<noteq> ''NaN''"
  proof
    fix i assume a: "show_int i = ''NaN''"
    have "CHR ''a'' \<in> set ''NaN''" by simp
    then have "CHR ''a'' \<in> set (show_int i)" using a by simp
    then show False using show_nat_not_special by (auto simp: show_int_def split: if_splits)
  qed
  show ?thesis
    using e nan show_int_inj
    by (cases x; cases y) (auto simp: js_show_def)
qed

lemma split_at_sep:
  "c \<notin> set xs \<Longrightarrow> c \<notin> set ys \<Longrightarrow> xs @ c # xs' = ys @ c # ys' \<Longrightarrow> xs = ys \<and> xs' = ys'"
proof (induction xs arbitrary: ys)
  case Nil
  then show ?case by (cases ys) auto
next
  case (Cons x xs)
  then show ?case by (cases ys) auto
qed

lemma registrationsCacheKey_inj:
  assumes "registrationsCacheKey p l a b c d = registrationsCacheKey p' l' a' b' c' d'"
  shows "p = p' \<and> l = l'"
proof -
  define r where "r = orElse a ''all'' @ '':'' @ orElse b ''none'' @ '':'' @ orElse c ''none'' @ '':'' @ orElse d ''UTC''"
  define r' where "r' = orElse a' ''all'' @ '':'' @ orElse b' ''none'' @ '':'' @ orElse c' ''none'' @ '':'' @ orElse d' ''UTC''"
  from assms have 1:
    "js_show p @ CHR '':'' # (js_show l @ CHR '':'' # r) =
     js_show p' @ CHR '':'' # (js_show l' @ CHR '':'' # r')"
    by (simp add: registrationsCacheKey_def r_def r'_def)
  from split_at_sep [OF js_show_not_colon js_show_not_colon 1]
  have 2: "js_show p = js_show p'" and 3: "js_show l @ CHR '':'' # r = js_show l' @ CHR '':'' # r'"
    by simp_all
  from split_at_sep [OF js_show_not_colon js_show_not_colon 3]
  have "js_show l = js_show l'" by simp
  with 2 show ?thesis by (simp add: js_show_inj)
qed





lemma fetchTrail_frame:
  "trailActors w' = trailActors w \<Longrightarrow> fetchTrail w' = fetchTrail w"
  by (intro ext) (simp add: fetchTrail_def split: stored.splits)

lemma fetchRegistration_frame:
  "regActors w' = regActors w \<Longrightarrow> fetchRegistration w' = fetchRegistration w"
  by (intro ext) (simp add: fetchRegistration_def split: stored.splits)









lemma pageCacheOk_empty: "pageCacheOk []"
  by (simp add: pageCacheOk_def)

lemma pageCacheOk_delete: "pageCacheOk c \<Longrightarrow> pageCacheOk (AList.delete k c)"
  unfolding pageCacheOk_def by (auto simp: delete_conv' split: if_splits)

lemma pageCacheOk_filter: "pageCacheOk c \<Longrightarrow> pageCacheOk (filter (\<lambda>(k, v). Q k) c)"
  unfolding pageCacheOk_def by (auto simp: map_of_filter_key split: if_splits)

lemma pageCacheOk_invalidate: "pageCacheOk c \<Longrightarrow> pageCacheOk (invalidateCache p c)"
  unfolding invalidateCache_filter by (rule pageCacheOk_filter)

lemma pageCacheOk_get: "pageCacheOk c \<Longrightarrow> pageCacheOk (snd (getFromCache now k c))"
  by (auto simp: getFromCache_def pageCacheOk_delete split: option.splits)

lemma pageCacheOk_set_other:
  "pageCacheOk c \<Longrightarrow> (\<And>r. v \<noteq> CPage r) \<Longrightarrow> pageCacheOk (setInCache now k v ttl c)"
  unfolding pageCacheOk_def by (auto simp: map_of_setInCache split: if_splits)

lemma pageCacheOk_set_page:
  assumes "pageCacheOk c"
    and "pg_page (resp_pagination r) = toJSON p" "pg_limit (resp_pagination r) = toJSON l"
    and "length (resp_data r) \<le> 100"
  shows "pageCacheOk (setInCache now (registrationsCacheKey p l a b c' d) (CPage r) ttl c)"
  unfolding pageCacheOk_def
proof (intro allI impI)
  fix page limit tf sd ed tz e r'
  assume m: "map_of (setInCache now (registrationsCacheKey p l a b c' d) (CPage r) ttl c)
               (registrationsCacheKey page limit tf sd ed tz) = Some e"
    and d: "data e = CPage r'"
  show "pg_page (resp_pagination r') = toJSON page \<and>
        pg_limit (resp_pagination r') = toJSON limit \<and> length (resp_data r') \<le> 100"
  proof (cases "registrationsCacheKey page limit tf sd ed tz = registrationsCacheKey p l a b c' d")
    case True
    then have "page = p \<and> limit = l" by (rule registrationsCacheKey_inj)
    moreover from True m d have "r' = r" by (auto simp: map_of_setInCache)
    ultimately show ?thesis using assms by simp
  next
    case False
    with m have "map_of c (registrationsCacheKey page limit tf sd ed tz) = Some e"
      by (simp add: map_of_setInCache)
    with assms(1) d show ?thesis unfolding pageCacheOk_def by blast
  qed
qed

lemma validateLimit_cases:
  "validateLimit limit = NaN \<or> (\<exists>l. validateLimit limit = Num l \<and> 1 \<le> l \<and> l \<le> 100)"
  by (cases limit) (auto simp: validateLimit_def js_gt_def Let_def)

lemma validatePage_cases:
  "validatePage page = NaN \<or> (\<exists>p. validatePage page = Num p \<and> 1 \<le> p)"
  by (cases page) (auto simp: validatePage_def)

lemma paginate_meta:
  "pg_page (resp_pagination (stringify (paginate page limit tf sd ed tz xs))) = toJSON page \<and>
   pg_limit (resp_pagination (stringify (paginate page limit tf sd ed tz xs))) = toJSON limit"
  by (simp add: paginate_def stringify_def Let_def)

lemma resp_data_stringify: "resp_data (stringify r) = resp_data r"
  by (simp add: stringify_def)

lemma js_slice_window:
  "0 \<le> s \<Longrightarrow> 0 \<le> l \<Longrightarrow>
   length (js_slice xs (Num s) (Num (min (s + l) (int (length xs))))) \<le> nat l"
  unfolding js_slice_def relativeIndex_def toInteger_def Let_def
  by (simp add: min_def) linarith

lemma paginate_length_raw:
  "length (resp_data (paginate (validatePage page) (validateLimit limit) tf sd ed tz xs)) \<le> 100"
proof -
  consider "validateLimit limit = NaN"
    | l where "validateLimit limit = Num l" "1 \<le> l" "l \<le> 100"
    using validateLimit_cases by blast
  then show ?thesis
  proof cases
    case 1
    then show ?thesis
      by (cases "validatePage page")
        (simp_all add: paginate_def Let_def js_slice_def relativeIndex_def toInteger_def)
  next
    case l: 2
    consider "validatePage page = NaN" | p where "validatePage page = Num p" "1 \<le> p"
      using validatePage_cases by blast
    then show ?thesis
    proof cases
      case 1
      with l show ?thesis
        by (simp add: paginate_def Let_def js_slice_def relativeIndex_def toInteger_def)
    next
      case p: 2
      have nn: "0 \<le> (p - 1) * l" using p l by simp
      have "length (js_slice xs (Num ((p - 1) * l))
               (Num (min ((p - 1) * l + l) (int (length xs))))) \<le> nat l"
        using nn l by (intro js_slice_window) simp_all
      also have "nat l \<le> 100" using l by simp
      finally show ?thesis
        using l p by (simp add: paginate_def Let_def)
    qed
  qed
qed

lemma paginate_length:
  "length (resp_data (stringify
     (paginate (validatePage page) (validateLimit limit) tf sd ed tz xs))) \<le> 100"
  by (simp only: resp_data_stringify paginate_length_raw)

lemma getFromCache_Some:
  "getFromCache now k c = (Some v, c') \<Longrightarrow> (\<exists>e. map_of c k = Some e \<and> data e = v) \<and> c' = c"
  by (auto simp: getFromCache_def split: option.splits if_splits)

lemma trailsNameMap_pageCacheOk:
  "pageCacheOk (cache w) \<Longrightarrow> pageCacheOk (cache (snd (trailsNameMap w)))"
  using pageCacheOk_get [of "cache w" "clock w" "''trails-name-map''"]
  by (auto simp: trailsNameMap_def Let_def pageCacheOk_set_other
      split: prod.splits option.splits cached.splits)

lemma getRegistrationData_cases:
  fixes rt page limit tf sd ed tz w
  defines "key \<equiv> registrationsCacheKey (validatePage page) (validateLimit limit) tf sd ed tz"
  shows "(\<exists>r. getFromCache (clock w) key (cache w) = (Some (CPage r), cache w) \<and>
              getRegistrationData rt page limit tf sd ed tz w = (r, w)) \<or>
         (\<exists>xs w1. w1 = snd (trailsNameMap (w\<lparr>cache := snd (getFromCache (clock w) key (cache w))\<rparr>)) \<and>
              getRegistrationData rt page limit tf sd ed tz w =
                (stringify (paginate (validatePage page) (validateLimit limit) tf sd ed tz xs),
                 w1\<lparr>cache := setInCache (clock w1) key
                    (CPage (stringify (paginate (validatePage page) (validateLimit limit) tf sd ed tz xs)))
                    (30 * 1000) (cache w1)\<rparr>))"
proof (cases "\<exists>r. fst (getFromCache (clock w) key (cache w)) = Some (CPage r)")
  case True
  then obtain r c where g: "getFromCache (clock w) key (cache w) = (Some (CPage r), c)"
    by (cases "getFromCache (clock w) key (cache w)") auto
  from getFromCache_Some [OF g] have c: "c = cache w" by simp
  have "getRegistrationData rt page limit tf sd ed tz w = (r, w)"
    using g unfolding getRegistrationData_def Let_def key_def [symmetric] by (simp add: c)
  with g c show ?thesis by blast
next
  case False
  obtain hit c where g: "getFromCache (clock w) key (cache w) = (hit, c)"
    by (cases "getFromCache (clock w) key (cache w)")
  obtain tm w1 where t: "trailsNameMap (w\<lparr>cache := c\<rparr>) = (tm, w1)"
    by (cases "trailsNameMap (w\<lparr>cache := c\<rparr>)")
  from False g have nohit: "\<And>r. hit \<noteq> Some (CPage r)" by simp
  have "getRegistrationData rt page limit tf sd ed tz w =
          (stringify (paginate (validatePage page) (validateLimit limit) tf sd ed tz
             (js_sort (\<lambda>a b. localeCompare rt (ti_timestamp b) (ti_timestamp a))
                (registrationTable rt w1 tm tf sd ed tz))),
           w1\<lparr>cache := setInCache (clock w1) key
              (CPage (stringify (paginate (validatePage page) (validateLimit limit) tf sd ed tz
                 (js_sort (\<lambda>a b. localeCompare rt (ti_timestamp b) (ti_timestamp a))
                    (registrationTable rt w1 tm tf sd ed tz)))))
              (30 * 1000) (cache w1)\<rparr>)"
    using g t nohit unfolding getRegistrationData_def Let_def key_def [symmetric]
    by (cases hit; simp split: cached.splits)
  moreover have "w1 = snd (trailsNameMap (w\<lparr>cache := snd (getFromCache (clock w) key (cache w))\<rparr>))"
    using g t by simp
  ultimately show ?thesis by blast
qed


lemma validateLimit_if:
  "validateLimit limit =
     (if js_lt limit (Num 1) then Num 10 else if js_gt limit (Num 100) then Num 100 else limit)"
  by (cases limit) (auto simp: validateLimit_def js_gt_def Let_def)

lemma validatePage_idem: "validatePage (validatePage page) = validatePage page"
  by (cases page) (auto simp: validatePage_def)

lemma validateLimit_idem: "validateLimit (validateLimit limit) = validateLimit limit"
  by (cases limit) (auto simp: validateLimit_def js_gt_def Let_def)

lemma getRegistrationData_validated:
  "getRegistrationData rt page limit tf sd ed tz w =
   getRegistrationData rt (validatePage page) (validateLimit limit) tf sd ed tz w"
  unfolding getRegistrationData_def by (simp only: validatePage_idem validateLimit_idem)

text \<open>
  C8. The pages in the cache are those the view itself stored (\<open>pageCacheOk\<close>, which
  holds of the empty cache and is kept by every cache operation and by the view). Then
  every call, served from the cache or computed, is the call with the validated
  parameters (a page below 1 is 1, a limit below 1 is 10, a limit above 100 is 100, and
  \<^verbatim>\<open>NaN\<close>, neither below nor above, stays), its response echoes those as JSON
  (\<^verbatim>\<open>null\<close> for \<^verbatim>\<open>NaN\<close>), and it holds at most 100 items.
\<close>

theorem pagination_clamped:
  assumes inv: "pageCacheOk (cache w)"
  shows "getRegistrationData rt page limit tf sd ed tz w =
           getRegistrationData rt
             (if js_lt page (Num 1) then Num 1 else page)
             (if js_lt limit (Num 1) then Num 10
              else if js_gt limit (Num 100) then Num 100 else limit) tf sd ed tz w \<and>
         pg_page (resp_pagination (fst (getRegistrationData rt page limit tf sd ed tz w))) =
           toJSON (if js_lt page (Num 1) then Num 1 else page) \<and>
         pg_limit (resp_pagination (fst (getRegistrationData rt page limit tf sd ed tz w))) =
           toJSON (if js_lt limit (Num 1) then Num 10
                   else if js_gt limit (Num 100) then Num 100 else limit) \<and>
         length (resp_data (fst (getRegistrationData rt page limit tf sd ed tz w))) \<le> 100 \<and>
         pageCacheOk (cache (snd (getRegistrationData rt page limit tf sd ed tz w)))"
proof -
  define res where "res = getRegistrationData rt page limit tf sd ed tz w"
  have goal: "pg_page (resp_pagination (fst res)) = toJSON (validatePage page) \<and>
         pg_limit (resp_pagination (fst res)) = toJSON (validateLimit limit) \<and>
         length (resp_data (fst res)) \<le> 100 \<and> pageCacheOk (cache (snd res))"
    using getRegistrationData_cases [of w page limit tf sd ed tz rt]
  proof (elim disjE exE conjE)
    fix r
    assume g: "getFromCache (clock w)
                 (registrationsCacheKey (validatePage page) (validateLimit limit) tf sd ed tz)
                 (cache w) = (Some (CPage r), cache w)"
      and e: "getRegistrationData rt page limit tf sd ed tz w = (r, w)"
    from getFromCache_Some [OF g] obtain en where
      "map_of (cache w) (registrationsCacheKey (validatePage page) (validateLimit limit) tf sd ed tz) = Some en"
      "data en = CPage r" by blast
    with inv have "pg_page (resp_pagination r) = toJSON (validatePage page) \<and>
         pg_limit (resp_pagination r) = toJSON (validateLimit limit) \<and> length (resp_data r) \<le> 100"
      unfolding pageCacheOk_def by blast
    with inv e show ?thesis by (simp add: res_def)
  next
    fix xs w1
    assume w1: "w1 = snd (trailsNameMap (w\<lparr>cache := snd (getFromCache (clock w)
                 (registrationsCacheKey (validatePage page) (validateLimit limit) tf sd ed tz)
                 (cache w))\<rparr>))"
      and e: "getRegistrationData rt page limit tf sd ed tz w =
                (stringify (paginate (validatePage page) (validateLimit limit) tf sd ed tz xs),
                 w1\<lparr>cache := setInCache (clock w1)
                    (registrationsCacheKey (validatePage page) (validateLimit limit) tf sd ed tz)
                    (CPage (stringify (paginate (validatePage page) (validateLimit limit) tf sd ed tz xs)))
                    (30 * 1000) (cache w1)\<rparr>)"
    have "pageCacheOk (snd (getFromCache (clock w)
                 (registrationsCacheKey (validatePage page) (validateLimit limit) tf sd ed tz)
                 (cache w)))"
      using inv by (rule pageCacheOk_get)
    then have "pageCacheOk (cache w1)"
      unfolding w1 by (intro trailsNameMap_pageCacheOk) simp
    then have "pageCacheOk (setInCache (clock w1)
                    (registrationsCacheKey (validatePage page) (validateLimit limit) tf sd ed tz)
                    (CPage (stringify (paginate (validatePage page) (validateLimit limit) tf sd ed tz xs)))
                    (30 * 1000) (cache w1))"
      by (intro pageCacheOk_set_page) (simp_all add: paginate_meta paginate_length)
    then show ?thesis
      unfolding res_def e by (simp add: paginate_meta paginate_length)
  qed
  have v: "getRegistrationData rt page limit tf sd ed tz w =
           getRegistrationData rt (validatePage page) (validateLimit limit) tf sd ed tz w"
    by (rule getRegistrationData_validated)
  show ?thesis
    using goal v unfolding res_def validateLimit_if validatePage_def by simp
qed






lemma storage_list_sample:
  "storage_list ''registration:'' (sampleStorage n k) = sampleStorage n k"
  by (simp add: storage_list_def sampleStorage_def filter_map o_def)

lemma length_sampleStorage: "length (sampleStorage n k) = n"
  by (simp add: sampleStorage_def)














theorem pagination_clamped_witness:
  "pg_page (resp_pagination (fst (getRegistrationData sampleRuntime (Num 0) (Num 500) None None None None world25))) = JNum 1 \<and>
   pg_limit (resp_pagination (fst (getRegistrationData sampleRuntime (Num 0) (Num 500) None None None None world25))) = JNum 100 \<and>
   pg_limit (resp_pagination (fst (getRegistrationData sampleRuntime (Num 3) (Num (- 4)) None None None None world25))) = JNum 10 \<and>
   pg_page (resp_pagination (fst (getRegistrationData sampleRuntime NaN (Num 5) None None None None world25))) = JNull \<and>
   getRegistrationData sampleRuntime (Num 0) (Num 500) None None None None world25 =
     getRegistrationData sampleRuntime (Num 1) (Num 100) None None None None world25 \<and>
   length (resp_data (fst (getRegistrationData sampleRuntime (Num 0) (Num 500) None None None None world25))) \<le> 100"
proof -
  have inv: "pageCacheOk (cache world25)"
    by (simp add: world25_def sampleWorld_def pageCacheOk_def)
  note A = pagination_clamped [OF inv, of sampleRuntime "Num 0" "Num 500" None None None None]
  note B = pagination_clamped [OF inv, of sampleRuntime "Num 3" "Num (- 4)" None None None None]
  note C = pagination_clamped [OF inv, of sampleRuntime NaN "Num 5" None None None None]
  have a1: "getRegistrationData sampleRuntime (Num 0) (Num 500) None None None None world25 =
     getRegistrationData sampleRuntime (Num 1) (Num 100) None None None None world25"
    using A [THEN conjunct1] by (simp add: js_gt_def)
  have a2: "pg_page (resp_pagination (fst (getRegistrationData sampleRuntime (Num 0) (Num 500) None None None None world25))) = JNum 1"
    using A [THEN conjunct2, THEN conjunct1] by (simp add: toJSON_def)
  have a3: "pg_limit (resp_pagination (fst (getRegistrationData sampleRuntime (Num 0) (Num 500) None None None None world25))) = JNum 100"
    using A [THEN conjunct2, THEN conjunct2, THEN conjunct1] by (simp add: toJSON_def js_gt_def)
  have a4: "length (resp_data (fst (getRegistrationData sampleRuntime (Num 0) (Num 500) None None None None world25))) \<le> 100"
    using A [THEN conjunct2, THEN conjunct2, THEN conjunct2, THEN conjunct1] .
  have b: "pg_limit (resp_pagination (fst (getRegistrationData sampleRuntime (Num 3) (Num (- 4)) None None None None world25))) = JNum 10"
    using B [THEN conjunct2, THEN conjunct2, THEN conjunct1] by (simp add: toJSON_def js_gt_def)
  have c: "pg_page (resp_pagination (fst (getRegistrationData sampleRuntime NaN (Num 5) None None None None world25))) = JNull"
    using C [THEN conjunct2, THEN conjunct1] by (simp add: toJSON_def)
  show ?thesis by (intro conjI a1 a2 a3 a4 b c)
qed

section \<open>Properties of the aggregator\<close>

lemma storage_list_put_other:
  "\<not> prefix p k \<Longrightarrow> storage_list p (storage_put k v s) = storage_list p s"
  by (induction s) (auto simp: storage_list_def storage_put_def)

lemma storage_get_put: "storage_get (storage_put k v s) k = Some v"
  by (simp add: storage_get_def storage_put_def update_conv')

lemma trailInfoEntry_frame:
  assumes "trailActors w' = trailActors w"
  shows "trailInfoEntry w' = trailInfoEntry w"
  by (intro ext) (simp only: trailInfoEntry_def fetchTrail_frame [OF assms])

lemma getAllTrails_frame:
  assumes "storage_list ''trail:'' (storage w') = storage_list ''trail:'' (storage w)"
    and "trailActors w' = trailActors w"
  shows "StatisticsService_getAllTrails w' = StatisticsService_getAllTrails w"
  unfolding StatisticsService_getAllTrails_def
  by (simp only: assms(1) trailInfoEntry_frame [OF assms(2)])

lemma processedRegistration_frame:
  assumes "regActors w' = regActors w"
  shows "processedRegistration rt w' trailMap = processedRegistration rt w trailMap"
  by (intro ext) (simp only: processedRegistration_def fetchRegistration_frame [OF assms])

lemma getAllRegistrations_frame:
  assumes "storage_list ''registration:'' (storage w') = storage_list ''registration:'' (storage w)"
    and "regActors w' = regActors w"
  shows "StatisticsService_getAllRegistrations rt trailMap w' =
         StatisticsService_getAllRegistrations rt trailMap w"
  unfolding StatisticsService_getAllRegistrations_def
  by (simp only: assms(1) processedRegistration_frame [OF assms(2)])

lemma aggregateAnalytics_frame:
  "storage_list ''trail:'' (storage (aggregateAnalytics rt w)) = storage_list ''trail:'' (storage w) \<and>
   storage_list ''registration:'' (storage (aggregateAnalytics rt w)) =
     storage_list ''registration:'' (storage w) \<and>
   trailActors (aggregateAnalytics rt w) = trailActors w \<and>
   regActors (aggregateAnalytics rt w) = regActors w"
  by (simp add: aggregateAnalytics_def Let_def storage_list_put_other)

lemma snapshot_aggregateAnalytics:
  "snapshot (aggregateAnalytics rt w) =
     Some \<lparr>ad_daily = daily (processRegistrations rt
               (StatisticsService_getAllRegistrations rt (StatisticsService_getAllTrails w) w)),
           ad_weekly = weekly (processRegistrations rt
               (StatisticsService_getAllRegistrations rt (StatisticsService_getAllTrails w) w)),
           ad_monthly = monthly (processRegistrations rt
               (StatisticsService_getAllRegistrations rt (StatisticsService_getAllTrails w) w)),
           ad_byTrail = byTrail (processRegistrations rt
               (StatisticsService_getAllRegistrations rt (StatisticsService_getAllTrails w) w)),
           ad_lastUpdated = toISOString rt (clock w)\<rparr>"
  by (simp add: snapshot_def aggregateAnalytics_def Let_def storage_get_put)

lemma grouping_snapshot_aggregateAnalytics:
  "map_option grouping (snapshot (aggregateAnalytics rt w)) =
     Some (processRegistrations rt
       (StatisticsService_getAllRegistrations rt (StatisticsService_getAllTrails w) w))"
  by (simp add: snapshot_aggregateAnalytics grouping_def)

lemma reaggregation_general:
  assumes s: "storage w' = storage (aggregateAnalytics rt w)"
    and t: "trailActors w' = trailActors w"
    and r: "regActors w' = regActors w"
  shows "map_option grouping (snapshot (aggregateAnalytics rt w')) =
         map_option grouping (snapshot (aggregateAnalytics rt w))"
proof -
  have 1: "storage_list ''trail:'' (storage w') = storage_list ''trail:'' (storage w)"
    and 2: "storage_list ''registration:'' (storage w') = storage_list ''registration:'' (storage w)"
    by (simp_all only: s aggregateAnalytics_frame)
  have tr: "StatisticsService_getAllTrails w' = StatisticsService_getAllTrails w"
    using 1 t by (rule getAllTrails_frame)
  have rg: "StatisticsService_getAllRegistrations rt (StatisticsService_getAllTrails w) w' =
      StatisticsService_getAllRegistrations rt (StatisticsService_getAllTrails w) w"
    using 2 r by (rule getAllRegistrations_frame)
  show ?thesis
    by (simp only: grouping_snapshot_aggregateAnalytics tr rg)
qed

text \<open>
  C6. The first run stores a snapshot whose grouped part is \<^verbatim>\<open>processRegistrations\<close> of
  what it read. A second run started from the state the first one left, at any later
  clock time and with the cache in any state, stores a snapshot with the same grouped
  part: the same daily, weekly, monthly and by-trail entries in the same order. Only
  \<^verbatim>\<open>lastUpdated\<close> may differ. The first run's own writes (the snapshot under
  \<^verbatim>\<open>analytics:data\<close> and the cache entry) are not among what the second run reads.
\<close>

theorem reaggregation_same_grouping:
  "map_option grouping (snapshot (aggregateAnalytics rt w)) =
     Some (processRegistrations rt
       (StatisticsService_getAllRegistrations rt (StatisticsService_getAllTrails w) w)) \<and>
   map_option grouping
     (snapshot (aggregateAnalytics rt ((aggregateAnalytics rt w)\<lparr>clock := t, cache := c\<rparr>))) =
   map_option grouping (snapshot (aggregateAnalytics rt w))"
proof -
  have "map_option grouping
     (snapshot (aggregateAnalytics rt ((aggregateAnalytics rt w)\<lparr>clock := t, cache := c\<rparr>))) =
     map_option grouping (snapshot (aggregateAnalytics rt w))"
    by (rule reaggregation_general) (simp_all add: aggregateAnalytics_frame)
  then show ?thesis
    by (intro conjI grouping_snapshot_aggregateAnalytics)
qed

lemma batchLoop_lengths:
  assumes "0 < n" "length cur < n" "\<forall>b \<in> set bs. length b \<le> n"
    and "batchLoop n es cur bs = (bs', cur')"
  shows "(\<forall>b \<in> set bs'. length b \<le> n) \<and> length cur' < n"
  using assms
proof (induction es arbitrary: cur bs)
  case Nil
  then show ?case by simp
next
  case (Cons e es)
  show ?case
  proof (cases "length (cur @ [e]) \<ge> n")
    case True
    with Cons.prems have eq: "length (cur @ [e]) = n" by simp
    from True Cons.prems have "batchLoop n es [] (bs @ [cur @ [e]]) = (bs', cur')"
      by (simp add: Let_def)
    moreover have "\<forall>b \<in> set (bs @ [cur @ [e]]). length b \<le> n"
      using Cons.prems(3) eq by auto
    ultimately show ?thesis using Cons.IH [of "[]" "bs @ [cur @ [e]]"] Cons.prems(1) by simp
  next
    case False
    with Cons.prems have "batchLoop n es (cur @ [e]) bs = (bs', cur')"
      by (simp add: Let_def)
    moreover have "length (cur @ [e]) < n" using False by simp
    ultimately show ?thesis using Cons.IH [of "cur @ [e]" bs] Cons.prems(1,3) by simp
  qed
qed

lemma makeBatches_lengths:
  assumes "0 < n"
  shows "\<forall>b \<in> set (makeBatches n es). length b \<le> n"
proof -
  obtain bs cur where b: "batchLoop n es [] [] = (bs, cur)"
    by (cases "batchLoop n es [] []")
  from batchLoop_lengths [OF assms _ _ b] assms
  have "(\<forall>b \<in> set bs. length b \<le> n) \<and> length cur < n" by simp
  then show ?thesis unfolding makeBatches_def b by auto
qed

lemma getAllRegistrations_flat:
  "StatisticsService_getAllRegistrations rt trailMap w =
     nonNull (map (\<lambda>entry. catchNull (processedRegistration rt w trailMap entry))
       (storage_list ''registration:'' (storage w)))"
  unfolding StatisticsService_getAllRegistrations_def by (rule fanout_flat)

lemma processedRegistration_fails:
  "actorCallFails w entry \<Longrightarrow> catchNull (processedRegistration rt w trailMap entry) = None"
  by (cases entry)
    (auto simp: actorCallFails_def processedRegistration_def catchNull_def
      split: sum.splits prod.splits)

lemma processedRegistration_ok:
  "aggregatable rt w entry \<Longrightarrow> catchNull (processedRegistration rt w trailMap entry) \<noteq> None"
  by (cases entry)
    (auto simp: aggregatable_def processedRegistration_def catchNull_def falsyStored_def
      fetchRegistration_def actorGet_def Let_def
      split: stored.splits actor.splits option.splits)

lemma nonNull_map_all_Some:
  "\<forall>x \<in> set xs. h x \<noteq> None \<Longrightarrow> nonNull (map h xs) = map (\<lambda>x. the (h x)) xs"
  by (induction xs) auto

text \<open>
  C5. The registrations are fanned out in batches of at most 50 that together are the
  listed entries. When the actor call of the entry at index \<open>i\<close> fails (it throws, or
  answers with another status than 200), the exception is caught in the entry's
  \<^verbatim>\<open>try\<close>: \<^verbatim>\<open>getAllRegistrations\<close> returns exactly what it returns for the other
  entries, the aggregation completes and stores the grouping built from those, and when
  the other entries can all be processed the result has one item for each of them, 49
  for a batch of 50.
\<close>

theorem batch_resilience:
  assumes es: "storage_list ''registration:'' (storage w) = es"
    and i: "i < length es"
    and bad: "actorCallFails w (es ! i)"
  shows "concat (makeBatches 50 es) = es \<and>
         (\<forall>batch \<in> set (makeBatches 50 es). length batch \<le> 50) \<and>
         StatisticsService_getAllRegistrations rt trailMap w =
           nonNull (map (\<lambda>entry. catchNull (processedRegistration rt w trailMap entry))
             (take i es @ drop (Suc i) es)) \<and>
         map_option grouping (snapshot (aggregateAnalytics rt w)) =
           Some (processRegistrations rt
             (nonNull (map (\<lambda>entry. catchNull
                (processedRegistration rt w (StatisticsService_getAllTrails w) entry))
                (take i es @ drop (Suc i) es)))) \<and>
         ((\<forall>entry \<in> set (take i es @ drop (Suc i) es). aggregatable rt w entry) \<longrightarrow>
            StatisticsService_getAllRegistrations rt trailMap w =
              map (\<lambda>entry. the (catchNull (processedRegistration rt w trailMap entry)))
                (take i es @ drop (Suc i) es) \<and>
            length (StatisticsService_getAllRegistrations rt trailMap w) = length es - 1)"
proof -
  have split: "es = take i es @ es ! i # drop (Suc i) es"
    using i by (rule id_take_nth_drop)
  have r: "StatisticsService_getAllRegistrations rt tm w =
      nonNull (map (\<lambda>entry. catchNull (processedRegistration rt w tm entry))
        (take i es @ drop (Suc i) es))" for tm
  proof -
    let ?f = "\<lambda>entry. catchNull (processedRegistration rt w tm entry)"
    have "StatisticsService_getAllRegistrations rt tm w = nonNull (map ?f es)"
      by (simp only: getAllRegistrations_flat es)
    also have "\<dots> = nonNull (map ?f (take i es @ es ! i # drop (Suc i) es))"
      using split by simp
    also have "\<dots> = nonNull (map ?f (take i es)) @ nonNull (map ?f (drop (Suc i) es))"
      using processedRegistration_fails [OF bad, of rt tm] by (simp add: nonNull_append)
    also have "\<dots> = nonNull (map ?f (take i es @ drop (Suc i) es))"
      by (simp add: nonNull_append)
    finally show ?thesis .
  qed
  have g: "map_option grouping (snapshot (aggregateAnalytics rt w)) =
           Some (processRegistrations rt
             (nonNull (map (\<lambda>entry. catchNull
                (processedRegistration rt w (StatisticsService_getAllTrails w) entry))
                (take i es @ drop (Suc i) es))))"
    by (simp only: grouping_snapshot_aggregateAnalytics r)
  have l: "length (take i es @ drop (Suc i) es) = length es - 1" using i by simp
  have good: "(\<forall>entry \<in> set (take i es @ drop (Suc i) es). aggregatable rt w entry) \<longrightarrow>
            StatisticsService_getAllRegistrations rt trailMap w =
              map (\<lambda>entry. the (catchNull (processedRegistration rt w trailMap entry)))
                (take i es @ drop (Suc i) es) \<and>
            length (StatisticsService_getAllRegistrations rt trailMap w) = length es - 1"
  proof
    assume a: "\<forall>entry \<in> set (take i es @ drop (Suc i) es). aggregatable rt w entry"
    have "\<forall>entry \<in> set (take i es @ drop (Suc i) es).
            catchNull (processedRegistration rt w trailMap entry) \<noteq> None"
      using a processedRegistration_ok by blast
    then have "nonNull (map (\<lambda>entry. catchNull (processedRegistration rt w trailMap entry))
             (take i es @ drop (Suc i) es)) =
          map (\<lambda>entry. the (catchNull (processedRegistration rt w trailMap entry)))
             (take i es @ drop (Suc i) es)"
      by (rule nonNull_map_all_Some)
    then show "StatisticsService_getAllRegistrations rt trailMap w =
              map (\<lambda>entry. the (catchNull (processedRegistration rt w trailMap entry)))
                (take i es @ drop (Suc i) es) \<and>
            length (StatisticsService_getAllRegistrations rt trailMap w) = length es - 1"
      using l by (simp only: r [of trailMap] length_map)
  qed
  show ?thesis
    by (intro conjI concat_makeBatches makeBatches_lengths [of 50, simplified] r g good)
qed

lemma world50_list: "storage_list ''registration:'' (storage world50) = sampleStorage 50 7"
  by (simp add: world50_def sampleWorld_def storage_list_sample)

lemma world50_bad: "actorCallFails world50 (sampleStorage 50 7 ! 7)"
  by (simp add: sampleStorage_def actorCallFails_def fetchRegistration_def actorGet_def
      world50_def sampleWorld_def)

lemma sample_aggregatable:
  "regActors w ''h'' = Live (Some sampleRegistration) \<Longrightarrow>
   aggregatable sampleRuntime w (key, Handle ''h'')"
  by (simp add: aggregatable_def truthyStr_def sampleRegistration_def sampleRuntime_def)

lemma world50_good:
  "\<forall>entry \<in> set (take 7 (sampleStorage 50 7) @ drop (Suc 7) (sampleStorage 50 7)).
     aggregatable sampleRuntime world50 entry"
proof -
  have h: "regActors world50 ''h'' = Live (Some sampleRegistration)"
    by (simp add: world50_def sampleWorld_def)
  show ?thesis
    unfolding sampleStorage_def take_map drop_map
    by (auto intro!: sample_aggregatable [OF h])
qed

theorem batch_resilience_witness:
  "length (StatisticsService_getAllRegistrations sampleRuntime [] world50) = 49"
proof -
  have i: "7 < length (sampleStorage 50 7)" by (simp add: length_sampleStorage)
  note A = batch_resilience [OF world50_list i world50_bad, of sampleRuntime "[]"]
  from A [THEN conjunct2, THEN conjunct2, THEN conjunct2, THEN conjunct2, THEN mp,
      OF world50_good, THEN conjunct2]
  show ?thesis by (simp add: length_sampleStorage)
qed

lemma world2_registrations:
  "StatisticsService_getAllRegistrations sampleRuntime
      (StatisticsService_getAllTrails world2) world2 =
     [\<lparr>pr_id = ''a'', pr_trailId = ''T1'', pr_trailName = ''Unknown'', pr_horseCount = 2,
       pr_timestamp = ''2024-02-28T12:00:00.000Z'', pr_date = ''2024-02-28'',
       pr_weekKey = ''2024-W9'', pr_weekLabel = ''2024 Week 9'',
       pr_monthKey = ''2024-02'', pr_monthLabel = ''February 2024''\<rparr>,
      \<lparr>pr_id = ''b'', pr_trailId = ''T1'', pr_trailName = ''Unknown'', pr_horseCount = 2,
       pr_timestamp = ''2024-03-06T12:00:00.000Z'', pr_date = ''2024-03-06'',
       pr_weekKey = ''2024-W10'', pr_weekLabel = ''2024 Week 10'',
       pr_monthKey = ''2024-03'', pr_monthLabel = ''March 2024''\<rparr>]"
  by code_simp

lemma two_weeks_sorted:
  "map ate_timeKey (weekly (processRegistrations sampleRuntime
     [\<lparr>pr_id = ''a'', pr_trailId = ''T1'', pr_trailName = ''Unknown'', pr_horseCount = 2,
       pr_timestamp = ''2024-02-28T12:00:00.000Z'', pr_date = ''2024-02-28'',
       pr_weekKey = ''2024-W9'', pr_weekLabel = ''2024 Week 9'',
       pr_monthKey = ''2024-02'', pr_monthLabel = ''February 2024''\<rparr>,
      \<lparr>pr_id = ''b'', pr_trailId = ''T1'', pr_trailName = ''Unknown'', pr_horseCount = 2,
       pr_timestamp = ''2024-03-06T12:00:00.000Z'', pr_date = ''2024-03-06'',
       pr_weekKey = ''2024-W10'', pr_weekLabel = ''2024 Week 10'',
       pr_monthKey = ''2024-03'', pr_monthLabel = ''March 2024''\<rparr>])) =
   [''2024-W10'', ''2024-W9'']"
  by code_simp

text \<open>
  C1 on the code. Two registrations with the week keys \<^verbatim>\<open>2024-W9\<close> and \<^verbatim>\<open>2024-W10\<close>:
  the weekly list of \<^verbatim>\<open>processRegistrations\<close> is sorted with \<^verbatim>\<open>localeCompare\<close> on the
  keys, which differ first at \<^verbatim>\<open>1\<close> against \<^verbatim>\<open>9\<close>, and puts \<^verbatim>\<open>2024-W10\<close> first.
\<close>

theorem weekly_order_lexicographic:
  "map pr_weekKey (StatisticsService_getAllRegistrations sampleRuntime
      (StatisticsService_getAllTrails world2) world2) = [''2024-W9'', ''2024-W10''] \<and>
   map ate_timeKey (weekly (processRegistrations sampleRuntime
     (StatisticsService_getAllRegistrations sampleRuntime
        (StatisticsService_getAllTrails world2) world2))) = [''2024-W10'', ''2024-W9'']"
  unfolding world2_registrations using two_weeks_sorted by simp

section \<open>Properties of the registration service\<close>

lemma storage_get_delete_same: "storage_get (storage_delete key s) key = None"
  by (simp add: storage_get_def storage_delete_def delete_conv)

lemma storage_get_put_other:
  "key' \<noteq> key \<Longrightarrow> storage_get (storage_put key' v s) key = storage_get s key"
  by (simp add: storage_get_def storage_put_def update_conv')

lemma storage_invalidateAllCaches [simp]: "storage (invalidateAllCaches t w) = storage w"
  by (simp add: invalidateAllCaches_def triggerAnalyticsAggregation_def setTimeout_def Let_def)

lemma removeFromTrailIndex_listed:
  assumes "trailListStored s t"
  shows "\<exists>s1. removeFromTrailIndex t registrationId s = Inr s1"
  using assms
  by (simp add: trailListStored_def removeFromTrailIndex_def Let_def
           split: option.splits stored.splits)

text \<open>
  C9, amended. Whenever the mapping \<^verbatim>\<open>registration:<id>\<close> holds an actor id, the actor
  answers the service's calls, and the registration list of the document's trail, if
  stored, is a list, \<^verbatim>\<open>deleteRegistration\<close> returns the response of the actor's
  \<^verbatim>\<open>DELETE\<close> and leaves no mapping, whatever that response is. When the actor holds no
  document, the caller gets the actor's 404 and the storage is the old one less the
  mapping.
\<close>

theorem delete_removes_mapping:
  assumes mapping: "storage_get (storage w) (''registration:'' @ registrationId) = Some (Handle h)"
    and handle: "h \<noteq> []"
    and answers: "regActors w h = Live doc"
    and lists: "\<forall>d t. doc = Some d \<longrightarrow> truthyStr (rd_trailId d) = Some t \<longrightarrow>
                  trailListStored (storage w) t"
  shows "fst (deleteRegistration registrationId w) =
           Inr (fst (RegistrationDO_deleteRegistration doc)) \<and>
         storage_get (storage (snd (deleteRegistration registrationId w)))
           (''registration:'' @ registrationId) = None \<and>
         (doc = None \<longrightarrow>
            fst (deleteRegistration registrationId w) =
              Inr (Response 404 (Text ''Registration not found'')) \<and>
            storage (snd (deleteRegistration registrationId w)) =
              storage_delete (''registration:'' @ registrationId) (storage w))"
proof (cases doc)
  case None
  then show ?thesis
    using mapping handle answers
    by (simp add: deleteRegistration_def falsyStored_def fetchRegistration_def actorGet_def
          registrationDelete_def RegistrationDO_deleteRegistration_def statusOf_def
          storage_get_delete_same Let_def)
next
  case (Some d)
  show ?thesis
  proof (cases "truthyStr (rd_trailId d)")
    case None
    then show ?thesis
      using mapping handle answers Some
      by (simp add: deleteRegistration_def falsyStored_def fetchRegistration_def actorGet_def
            registrationDelete_def RegistrationDO_deleteRegistration_def statusOf_def
            storage_get_delete_same Let_def)
  next
    case t: (Some t)
    from lists Some t have "trailListStored (storage w) t" by simp
    then obtain s1 where s1: "removeFromTrailIndex t registrationId (storage w) = Inr s1"
      using removeFromTrailIndex_listed by blast
    show ?thesis
      using mapping handle answers Some t s1
      by (simp add: deleteRegistration_def falsyStored_def fetchRegistration_def actorGet_def
            registrationDelete_def RegistrationDO_deleteRegistration_def statusOf_def
            storage_get_delete_same Let_def)
  qed
qed

theorem delete_removes_mapping_witness:
  "fst (deleteRegistration ''x'' worldOrphan) =
     Inr (Response 404 (Text ''Registration not found'')) \<and>
   storage_get (storage (snd (deleteRegistration ''x'' worldOrphan))) ''registration:x'' = None \<and>
   storage (snd (deleteRegistration ''x'' worldOrphan)) = []"
proof -
  have m: "storage_get (storage worldOrphan) (''registration:'' @ ''x'') = Some (Handle ''odd'')"
    by (simp add: worldOrphan_def sampleWorld_def storage_get_def)
  have a: "regActors worldOrphan ''odd'' = Live None"
    by (simp add: worldOrphan_def sampleWorld_def)
  have s: "storage_delete (''registration:'' @ ''x'') (storage worldOrphan) = []"
    by (simp add: worldOrphan_def sampleWorld_def storage_delete_def)
  have l: "\<forall>d t. (None :: RegistrationData option) = Some d \<longrightarrow>
             truthyStr (rd_trailId d) = Some t \<longrightarrow> trailListStored (storage worldOrphan) t"
    by simp
  note th = delete_removes_mapping [OF m _ a l]
  have h: "''odd'' \<noteq> []" by simp
  from th [OF h] have
    1: "fst (deleteRegistration ''x'' worldOrphan) =
          Inr (fst (RegistrationDO_deleteRegistration None))"
    and 2: "storage_get (storage (snd (deleteRegistration ''x'' worldOrphan)))
              (''registration:'' @ ''x'') = None"
    and 3: "fst (deleteRegistration ''x'' worldOrphan) =
              Inr (Response 404 (Text ''Registration not found'')) \<and>
            storage (snd (deleteRegistration ''x'' worldOrphan)) =
              storage_delete (''registration:'' @ ''x'') (storage worldOrphan)"
    by blast+
  from 2 3 s show ?thesis by simp
qed

theorem delete_keeps_mapping_counterexample:
  "storage_get (storage worldLost) ''registration:x'' = Some (Handle ''odd'') \<and>
   fst (deleteRegistration ''x'' worldLost) = Inl ActorError \<and>
   storage_get (storage (snd (deleteRegistration ''x'' worldLost))) ''registration:x'' =
     Some (Handle ''odd'')"
  by (simp add: worldLost_def sampleWorld_def deleteRegistration_def storage_get_def
        falsyStored_def fetchRegistration_def actorGet_def)

end
